theory Spec2Isabelle
  imports Complex_Main "HOL-Library.Monad_Syntax" "HOL-Library.AList"
begin

section \<open>Numbers\<close>

text \<open>
  The server computes with JavaScript numbers. Except in the section on start poses,
  where the special values are the subject, a number is modelled by the real it denotes:
  rounding is not modelled, and an operation whose JavaScript result is NaN or an
  infinity has no value in the model (\<open>None\<close>).

  \<open>Math.pow(x, y)\<close> on reals: 1 for \<open>y = 0\<close>; the real power for a positive base;
  0 for base 0 and a positive exponent (an infinity for a negative one); for a negative
  base the integer power when \<open>y\<close> is an integer, and NaN otherwise.
\<close>

definition Math_pow :: "real \<Rightarrow> real \<Rightarrow> real option" where
  "Math_pow x y =
     (if y = 0 then Some 1
      else if 0 < x then Some (x powr y)
      else if x = 0 then (if 0 < y then Some 0 else None)
      else if y = of_int \<lfloor>y\<rfloor> then Some (x powi \<lfloor>y\<rfloor>)
      else None)"

definition Math_floor :: "real \<Rightarrow> real" where
  "Math_floor x = of_int \<lfloor>x\<rfloor>"

section \<open>fbm.js: the procedural terrain field\<close>

text \<open>An object \<open>{x, y, z}\<close>; a point passed as an array \<open>[p0, p1, p2]\<close> is a triple.\<close>

datatype vec3 = vec3 (vx: real) (vy: real) (vz: real)

type_synonym arr3 = "real \<times> real \<times> real"

fun add :: "vec3 \<Rightarrow> vec3 \<Rightarrow> vec3" where
  "add (vec3 ax ay az) (vec3 bx by bz) = vec3 (ax + bx) (ay + by) (az + bz)"

fun sub :: "vec3 \<Rightarrow> vec3 \<Rightarrow> vec3" where
  "sub (vec3 ax ay az) (vec3 bx by bz) = vec3 (ax - bx) (ay - by) (az - bz)"

fun scale :: "vec3 \<Rightarrow> real \<Rightarrow> vec3" where
  "scale (vec3 ax ay az) s = vec3 (ax * s) (ay * s) (az * s)"

fun floorVec :: "vec3 \<Rightarrow> vec3" where
  "floorVec (vec3 ax ay az) = vec3 (Math_floor ax) (Math_floor ay) (Math_floor az)"

definition fract :: "real \<Rightarrow> real" where
  "fract x = x - Math_floor x"

definition hash :: "vec3 \<Rightarrow> real" where
  "hash p =
     (let v = add (scale p 0.3183099) (vec3 0.1 0.1 0.1)
      in fract (vx v * vy v * vz v * (vx v + vy v + vz v)))"

definition fade :: "real \<Rightarrow> real" where
  "fade t = t * t * (3 - 2 * t)"

definition mix :: "real \<Rightarrow> real \<Rightarrow> real \<Rightarrow> real" where
  "mix a b t = a * (1 - t) + b * t"

definition noise :: "vec3 \<Rightarrow> real" where
  "noise p =
     (let i = floorVec p;
          f = sub p i;
          fx = fade (vx f);
          fy = fade (vy f);
          fz = fade (vz f);
          n000 = hash i;
          n100 = hash (add i (vec3 1 0 0));
          n010 = hash (add i (vec3 0 1 0));
          n110 = hash (add i (vec3 1 1 0));
          n001 = hash (add i (vec3 0 0 1));
          n101 = hash (add i (vec3 1 0 1));
          n011 = hash (add i (vec3 0 1 1));
          n111 = hash (add i (vec3 1 1 1));
          x00 = mix n000 n100 fx;
          x10 = mix n010 n110 fx;
          x01 = mix n001 n101 fx;
          x11 = mix n011 n111 fx;
          y0 = mix x00 x10 fy;
          y1 = mix x01 x11 fy
      in mix y0 y1 fz)"

fun noiseArray :: "arr3 \<Rightarrow> real" where
  "noiseArray (p0, p1, p2) = noise (vec3 p0 p1 p2)"

definition ridge :: "real \<Rightarrow> real" where
  "ridge n = (1.0 - \<bar>n\<bar>) * (1.0 - \<bar>n\<bar>)"

text \<open>
  The loop of \<open>fbmStandard\<close>: \<open>for (let i = 0; i < octaves; i++)\<close> with the running
  \<open>sum\<close> (here \<open>sm\<close>), \<open>amp\<close> and \<open>f\<close>. \<open>octaves\<close> is a number, not necessarily an integer. The noise
  function is a parameter of the source (a test passes a stub that records its
  arguments), so the model also returns the arguments of the calls, in call order.
\<close>

function fbmStandard_loop ::
  "(arr3 \<Rightarrow> real) \<Rightarrow> arr3 \<Rightarrow> real \<Rightarrow> real \<Rightarrow> real \<Rightarrow> nat \<Rightarrow> real \<Rightarrow> real \<Rightarrow> real \<Rightarrow> arr3 list
     \<Rightarrow> real \<times> arr3 list" where
  "fbmStandard_loop noiseFn (p0, p1, p2) lacunarity persistence octaves i sm amp f calls =
     (if real i < octaves then
        fbmStandard_loop noiseFn (p0, p1, p2) lacunarity persistence octaves (Suc i)
          (sm + noiseFn (p0 * f, p1 * f, p2 * f) * amp)
          (amp * persistence) (f * lacunarity)
          (calls @ [(p0 * f, p1 * f, p2 * f)])
      else (sm, calls))"
  by pat_completeness auto
termination
proof (relation "measure (\<lambda>(noiseFn, p, lacunarity, persistence, octaves, i, rest). nat \<lceil>octaves\<rceil> - i)")
  show "wf (measure (\<lambda>(noiseFn, p, lacunarity, persistence, octaves, i, rest). nat \<lceil>octaves :: real\<rceil> - i))"
    by simp
next
  fix noiseFn :: "arr3 \<Rightarrow> real" and p0 p1 p2 lacunarity persistence octaves :: real
    and i :: nat and sm amp f :: real and calls :: "arr3 list"
  assume "real i < octaves"
  then have "int i < \<lceil>octaves\<rceil>"
    by (simp add: less_ceiling_iff)
  then have "i < nat \<lceil>octaves\<rceil>"
    by simp
  then show "((noiseFn, (p0, p1, p2), lacunarity, persistence, octaves, Suc i,
               sm + noiseFn (p0 * f, p1 * f, p2 * f) * amp, amp * persistence, f * lacunarity,
               calls @ [(p0 * f, p1 * f, p2 * f)]),
              (noiseFn, (p0, p1, p2), lacunarity, persistence, octaves, i, sm, amp, f, calls))
             \<in> measure (\<lambda>(noiseFn, p, lacunarity, persistence, octaves, i, rest). nat \<lceil>octaves\<rceil> - i)"
    by simp
qed

declare fbmStandard_loop.simps [simp del]

definition fbmStandard_run ::
  "arr3 \<Rightarrow> real \<Rightarrow> real \<Rightarrow> real \<Rightarrow> real \<Rightarrow> (arr3 \<Rightarrow> real) \<Rightarrow> real \<times> arr3 list" where
  "fbmStandard_run p freq lacunarity persistence octaves noiseFn =
     fbmStandard_loop noiseFn p lacunarity persistence octaves 0 0 0.5 freq []"

text \<open>The value \<open>fbmStandard\<close> returns, and the points it passed to the noise function.\<close>

definition fbmStandard :: "arr3 \<Rightarrow> real \<Rightarrow> real \<Rightarrow> real \<Rightarrow> real \<Rightarrow> (arr3 \<Rightarrow> real) \<Rightarrow> real" where
  "fbmStandard p freq lacunarity persistence octaves noiseFn =
     fst (fbmStandard_run p freq lacunarity persistence octaves noiseFn)"

definition fbmStandard_calls ::
  "arr3 \<Rightarrow> real \<Rightarrow> real \<Rightarrow> real \<Rightarrow> real \<Rightarrow> (arr3 \<Rightarrow> real) \<Rightarrow> arr3 list" where
  "fbmStandard_calls p freq lacunarity persistence octaves noiseFn =
     snd (fbmStandard_run p freq lacunarity persistence octaves noiseFn)"

text \<open>
  \<open>ridgedFBM\<close>: the same loop, each noise sample passed through \<open>ridge\<close>.
\<close>

function ridgedFBM_loop ::
  "(arr3 \<Rightarrow> real) \<Rightarrow> arr3 \<Rightarrow> real \<Rightarrow> real \<Rightarrow> real \<Rightarrow> nat \<Rightarrow> real \<Rightarrow> real \<Rightarrow> real \<Rightarrow> real" where
  "ridgedFBM_loop noiseFn (p0, p1, p2) lacunarity persistence octaves i sm amp f =
     (if real i < octaves then
        ridgedFBM_loop noiseFn (p0, p1, p2) lacunarity persistence octaves (Suc i)
          (sm + ridge (noiseFn (p0 * f, p1 * f, p2 * f)) * amp)
          (amp * persistence) (f * lacunarity)
      else sm)"
  by pat_completeness auto
termination
proof (relation "measure (\<lambda>(noiseFn, p, lacunarity, persistence, octaves, i, rest). nat \<lceil>octaves\<rceil> - i)")
  show "wf (measure (\<lambda>(noiseFn, p, lacunarity, persistence, octaves, i, rest). nat \<lceil>octaves :: real\<rceil> - i))"
    by simp
next
  fix noiseFn :: "arr3 \<Rightarrow> real" and p0 p1 p2 lacunarity persistence octaves :: real
    and i :: nat and sm amp f :: real
  assume "real i < octaves"
  then have "int i < \<lceil>octaves\<rceil>"
    by (simp add: less_ceiling_iff)
  then have "i < nat \<lceil>octaves\<rceil>"
    by simp
  then show "((noiseFn, (p0, p1, p2), lacunarity, persistence, octaves, Suc i,
               sm + ridge (noiseFn (p0 * f, p1 * f, p2 * f)) * amp, amp * persistence, f * lacunarity),
              (noiseFn, (p0, p1, p2), lacunarity, persistence, octaves, i, sm, amp, f))
             \<in> measure (\<lambda>(noiseFn, p, lacunarity, persistence, octaves, i, rest). nat \<lceil>octaves\<rceil> - i)"
    by simp
qed

declare ridgedFBM_loop.simps [simp del]

definition ridgedFBM :: "arr3 \<Rightarrow> real \<Rightarrow> real \<Rightarrow> real \<Rightarrow> real \<Rightarrow> (arr3 \<Rightarrow> real) \<Rightarrow> real" where
  "ridgedFBM p freq lacunarity persistence octaves noiseFn =
     ridgedFBM_loop noiseFn p lacunarity persistence octaves 0 0 0.5 freq"

text \<open>
  The terrain parameters object (\<open>fbmParams\<close>). \<open>uMaxHeight\<close> may be absent
  (\<open>fbmParams.uMaxHeight ?? 10\<close>); \<open>useRidged\<close> is read for its truthiness.
\<close>

record fbm_params =
  uFrequency :: real
  uLacunarity :: real
  uPersistence :: real
  uOctaves :: real
  uExponentiation :: real
  useRidged :: bool
  uMaxHeight :: "real option"

definition terrainElevationFBM :: "arr3 \<Rightarrow> fbm_params \<Rightarrow> (arr3 \<Rightarrow> real) \<Rightarrow> real option" where
  "terrainElevationFBM pos params noiseFn =
     (let elevation = fbmStandard pos (uFrequency params) (uLacunarity params) (uPersistence params)
                        (uOctaves params) noiseFn
      in Math_pow elevation (uExponentiation params))"

fun terrainElevationRidged :: "arr3 \<Rightarrow> fbm_params \<Rightarrow> (arr3 \<Rightarrow> real) \<Rightarrow> real option" where
  "terrainElevationRidged (pos0, pos1, pos2) params noiseFn =
     (let base = ridgedFBM (pos0, pos1, pos2) (uFrequency params) (uLacunarity params)
                   (uPersistence params) (uOctaves params) noiseFn;
          warp0 = noiseFn (pos0 * 0.5, pos1 * 0.5, pos2 * 0.5);
          warp1 = noiseFn (pos0 * 0.5 + 100, pos1 * 0.5, pos2 * 0.5);
          warp2 = noiseFn (pos0 * 0.5, pos1 * 0.5 + 200, pos2 * 0.5);
          warpedPos = (pos0 + warp0 * 0.3, pos1 + warp1 * 0.3, pos2 + warp2 * 0.3);
          detail = ridgedFBM warpedPos (uFrequency params * 2.5) (uLacunarity params)
                     (uPersistence params) (max 3 (Math_floor (uOctaves params / 2))) noiseFn
      in Math_pow (base + detail * 0.3) (uExponentiation params))"

text \<open>
  What the specification says a ridged fBm is: the sum over the octaves
  \<open>i \<in> [0, n)\<close> of \<open>ridge (noiseFn (p \<cdot> f\<^sub>i)) \<cdot> amp\<^sub>i\<close> with \<open>f\<^sub>i = freq \<cdot> lacunarity\<^sup>i\<close> and
  \<open>amp\<^sub>i = 0.5 \<cdot> persistence\<^sup>i\<close>. It is compared with the loop of the source.
\<close>

fun spec_ridged_sum :: "(arr3 \<Rightarrow> real) \<Rightarrow> arr3 \<Rightarrow> real \<Rightarrow> real \<Rightarrow> real \<Rightarrow> nat \<Rightarrow> real" where
  "spec_ridged_sum noiseFn (p0, p1, p2) freq lacunarity persistence n =
     (\<Sum>i < n. ridge (noiseFn (p0 * (freq * lacunarity ^ i), p1 * (freq * lacunarity ^ i),
                                p2 * (freq * lacunarity ^ i)))
                * (0.5 * persistence ^ i))"

section \<open>math.js: the geometry kernel\<close>

text \<open>
  The classes \<open>Vector3\<close> and \<open>Quaternion\<close>. A method mutates its receiver and returns it;
  here a method is the function from the receiver's old value (first argument) to its
  new value. Which object receives the value is decided where the method is called.
\<close>

datatype Vector3 = Vector3 (x3: real) (y3: real) (z3: real)

datatype Quaternion = Quaternion (qx: real) (qy: real) (qz: real) (qw: real)

fun V_add :: "Vector3 \<Rightarrow> Vector3 \<Rightarrow> Vector3" where
  "V_add (Vector3 x y z) (Vector3 vx' vy' vz') = Vector3 (x + vx') (y + vy') (z + vz')"

fun V_multiplyScalar :: "Vector3 \<Rightarrow> real \<Rightarrow> Vector3" where
  "V_multiplyScalar (Vector3 x y z) s = Vector3 (x * s) (y * s) (z * s)"

fun V_dot :: "Vector3 \<Rightarrow> Vector3 \<Rightarrow> real" where
  "V_dot (Vector3 x y z) (Vector3 vx' vy' vz') = x * vx' + y * vy' + z * vz'"

fun V_length :: "Vector3 \<Rightarrow> real" where
  "V_length (Vector3 x y z) = sqrt (x * x + y * y + z * z)"

definition V_normalize :: "Vector3 \<Rightarrow> Vector3" where
  "V_normalize v = (let l = V_length v in if l > 0 then V_multiplyScalar v (1 / l) else v)"

fun V_lerp :: "Vector3 \<Rightarrow> Vector3 \<Rightarrow> real \<Rightarrow> Vector3" where
  "V_lerp (Vector3 x y z) (Vector3 vx' vy' vz') alpha =
     Vector3 (x + (vx' - x) * alpha) (y + (vy' - y) * alpha) (z + (vz' - z) * alpha)"

fun V_applyQuaternion :: "Vector3 \<Rightarrow> Quaternion \<Rightarrow> Vector3" where
  "V_applyQuaternion (Vector3 x y z) (Quaternion qx' qy' qz' qw') =
     (let ix = qw' * x + qy' * z - qz' * y;
          iy = qw' * y + qz' * x - qx' * z;
          iz = qw' * z + qx' * y - qy' * x;
          iw = - qx' * x - qy' * y - qz' * z
      in Vector3 (ix * qw' + iw * (- qx') + iy * (- qz') - iz * (- qy'))
                 (iy * qw' + iw * (- qy') + iz * (- qx') - ix * (- qz'))
                 (iz * qw' + iw * (- qz') + ix * (- qy') - iy * (- qx')))"

fun Q_premultiply :: "Quaternion \<Rightarrow> Quaternion \<Rightarrow> Quaternion" where
  "Q_premultiply (Quaternion x y z w) (Quaternion qx' qy' qz' qw') =
     Quaternion (qx' * w + qw' * x + qy' * z - qz' * y)
                (qy' * w + qw' * y + qz' * x - qx' * z)
                (qz' * w + qw' * z + qx' * y - qy' * x)
                (qw' * w - qx' * x - qy' * y - qz' * z)"

text \<open>\<open>setFromAxisAngle\<close> overwrites the receiver, so its old value is no argument.\<close>

definition Q_setFromAxisAngle :: "Vector3 \<Rightarrow> real \<Rightarrow> Quaternion" where
  "Q_setFromAxisAngle axis angle =
     (let half = angle / 2;
          l = V_length axis
      in if l = 0 then Quaternion 0 0 0 1
         else (let s = sin half / l
               in Quaternion (x3 axis * s) (y3 axis * s) (z3 axis * s) (cos half)))"

fun Q_length :: "Quaternion \<Rightarrow> real" where
  "Q_length (Quaternion x y z w) = sqrt (x * x + y * y + z * z + w * w)"

definition Q_normalize :: "Quaternion \<Rightarrow> Quaternion" where
  "Q_normalize q =
     (let l = Q_length q
      in if l = 0 then Quaternion 0 0 0 1
         else (let l' = 1 / l
               in Quaternion (qx q * l') (qy q * l') (qz q * l') (qw q * l')))"

section \<open>workers/PhysicsWorker.js: terrain collision\<close>

definition FIXED_STEP :: real where
  "FIXED_STEP = 1 / 60"

definition MAX_ANG :: real where
  "MAX_ANG = 2.0"

definition playerRadius :: real where
  "playerRadius = 0.5"

definition clamp :: "real \<Rightarrow> real \<Rightarrow> real \<Rightarrow> real" where
  "clamp v mn mx = max mn (min mx v)"

text \<open>The module-level variables of the worker that the physics step reads.\<close>

record globals =
  planetRadius :: real
  fbmParams :: "fbm_params option"
  restitution :: real
  slideFactor :: real

text \<open>
  The worker allocates its scratch vectors once (\<open>_tmpA\<close>, \<open>_tmpB\<close>, \<open>_tmpCorner\<close>,
  \<open>_closestCorner\<close>, \<open>_obbResult\<close>) and passes them by reference. They are a store here,
  and a function that receives one of them as an argument receives its name.
\<close>

record scratch =
  tmpA :: Vector3
  tmpB :: Vector3
  tmpCorner :: Vector3
  closestCorner :: Vector3
  obbResult_distance :: real
  obbResult_normal :: Vector3

datatype vref = Ref_tmpA | Ref_tmpB | Ref_tmpCorner | Ref_closestCorner

fun deref :: "scratch \<Rightarrow> vref \<Rightarrow> Vector3" where
  "deref s Ref_tmpA = tmpA s"
| "deref s Ref_tmpB = tmpB s"
| "deref s Ref_tmpCorner = tmpCorner s"
| "deref s Ref_closestCorner = closestCorner s"

fun assign :: "vref \<Rightarrow> Vector3 \<Rightarrow> scratch \<Rightarrow> scratch" where
  "assign Ref_tmpA v s = s\<lparr>tmpA := v\<rparr>"
| "assign Ref_tmpB v s = s\<lparr>tmpB := v\<rparr>"
| "assign Ref_tmpCorner v s = s\<lparr>tmpCorner := v\<rparr>"
| "assign Ref_closestCorner v s = s\<lparr>closestCorner := v\<rparr>"

text \<open>\<open>a.copy(b)\<close>, \<open>a.add(b)\<close> and \<open>a.normalize()\<close> on scratch vectors; \<open>a\<close> and \<open>b\<close> may be the same object.\<close>

definition st_copy :: "vref \<Rightarrow> vref \<Rightarrow> scratch \<Rightarrow> scratch" where
  "st_copy a b s = assign a (deref s b) s"

definition st_add :: "vref \<Rightarrow> vref \<Rightarrow> scratch \<Rightarrow> scratch" where
  "st_add a b s = assign a (V_add (deref s a) (deref s b)) s"

definition st_normalize :: "vref \<Rightarrow> scratch \<Rightarrow> scratch" where
  "st_normalize a s = assign a (V_normalize (deref s a)) s"

text \<open>
  \<open>signedDistanceToPlanet(p)\<close>. The direction is computed in \<open>_tmpA\<close>
  (\<open>_tmpA.copy(p).normalize()\<close>) and \<open>p.length()\<close> is read afterwards, from the
  object \<open>p\<close> as it is then. The terrain functions are called with their default noise
  function \<open>noiseArray\<close>.
\<close>

definition signedDistanceToPlanet :: "globals \<Rightarrow> vref \<Rightarrow> scratch \<Rightarrow> (real \<times> scratch) option" where
  "signedDistanceToPlanet g p s =
     (case fbmParams g of
        None \<Rightarrow> Some (1000, s)
      | Some params \<Rightarrow>
          if planetRadius g = 0 then Some (1000, s)
          else
            (let s1 = st_normalize Ref_tmpA (st_copy Ref_tmpA p s);
                 dirArr = (x3 (tmpA s1), y3 (tmpA s1), z3 (tmpA s1))
             in case (if useRidged params then terrainElevationRidged dirArr params noiseArray
                      else terrainElevationFBM dirArr params noiseArray) of
                  None \<Rightarrow> None
                | Some raw \<Rightarrow>
                    (let elevation = max 0 (raw * 0.5 + 0.5);
                         maxH = (case uMaxHeight params of None \<Rightarrow> 10 | Some h \<Rightarrow> h)
                     in Some (V_length (deref s1 p) - (planetRadius g + elevation * maxH), s1))))"

definition calculatePlanetNormal :: "Vector3 \<Rightarrow> Vector3" where
  "calculatePlanetNormal p = V_normalize p"

text \<open>
  The loop over the eight corners in \<open>obbSignedDistanceWithNormal\<close>. \<open>minDist\<close> starts as
  \<open>Infinity\<close> (\<open>None\<close>), below which every distance lies. \<open>(i & 1)\<close>, \<open>(i & 2)\<close> and
  \<open>(i & 4)\<close> test the bits 0, 1 and 2 of \<open>i\<close>. \<open>halfExtents\<close> is read from the store in
  every round.
\<close>

function obb_corner_loop ::
  "globals \<Rightarrow> Vector3 \<Rightarrow> vref \<Rightarrow> Quaternion \<Rightarrow> nat \<Rightarrow> real option \<Rightarrow> scratch
     \<Rightarrow> (real option \<times> scratch) option" where
  "obb_corner_loop g center halfExtents orientation i minDist s =
     (if i < 8 then
        (let sx = (if bit i 0 then 1 else - 1);
             sy = (if bit i 1 then 1 else - 1);
             sz = (if bit i 2 then 1 else - 1);
             h = deref s halfExtents;
             s1 = assign Ref_tmpCorner
                    (V_add (V_applyQuaternion (Vector3 (sx * x3 h) (sy * y3 h) (sz * z3 h)) orientation)
                       center) s
         in case signedDistanceToPlanet g Ref_tmpCorner s1 of
              None \<Rightarrow> None
            | Some (d, s2) \<Rightarrow>
                if (case minDist of None \<Rightarrow> True | Some m \<Rightarrow> d < m)
                then obb_corner_loop g center halfExtents orientation (Suc i) (Some d)
                       (st_copy Ref_closestCorner Ref_tmpCorner s2)
                else obb_corner_loop g center halfExtents orientation (Suc i) minDist s2)
      else Some (minDist, s))"
  by pat_completeness auto
termination
  by (relation "measure (\<lambda>(g, center, halfExtents, orientation, i, rest). 8 - i)") auto

declare obb_corner_loop.simps [simp del]

text \<open>
  One finite-difference sample:
  \<open>_tmpA.copy(_closestCorner).add(_tmpA.set(dx, dy, dz)); signedDistanceToPlanet(_tmpA)\<close>.
  JavaScript evaluates the receiver \<open>_tmpA.copy(_closestCorner)\<close> first, then the
  argument \<open>_tmpA.set(dx, dy, dz)\<close>, then \<open>add\<close> with both operands the object \<open>_tmpA\<close>.
\<close>

definition gradient_sample :: "globals \<Rightarrow> real \<Rightarrow> real \<Rightarrow> real \<Rightarrow> scratch \<Rightarrow> (real \<times> scratch) option" where
  "gradient_sample g dx dy dz s =
     signedDistanceToPlanet g Ref_tmpA
       (st_add Ref_tmpA Ref_tmpA
          (assign Ref_tmpA (Vector3 dx dy dz)
             (st_copy Ref_tmpA Ref_closestCorner s)))"

text \<open>
  \<open>obbSignedDistanceWithNormal(center, halfExtents, orientation, out)\<close> with
  \<open>out = _obbResult\<close>. \<open>center\<close> is the player's own position object, which is none of the
  scratch vectors, so it is passed by value. In the reals the test
  \<open>!isFiniteNum(out.normal.x)\<close> never holds.
\<close>

definition obbSignedDistanceWithNormal ::
  "globals \<Rightarrow> Vector3 \<Rightarrow> vref \<Rightarrow> Quaternion \<Rightarrow> scratch \<Rightarrow> scratch option" where
  "obbSignedDistanceWithNormal g center halfExtents orientation s =
     (if fbmParams g = None \<or> planetRadius g = 0
      then Some (s\<lparr>obbResult_distance := 1000, obbResult_normal := Vector3 0 1 0\<rparr>)
      else do {
        (minDist, s1) \<leftarrow> obb_corner_loop g center halfExtents orientation 0 None s;
        dist \<leftarrow> minDist;
        let s2 = s1\<lparr>obbResult_distance := dist\<rparr>;
        let eps = 0.5;
        (sxp, s3) \<leftarrow> gradient_sample g eps 0 0 s2;
        (sxn, s4) \<leftarrow> gradient_sample g (- eps) 0 0 s3;
        (syp, s5) \<leftarrow> gradient_sample g 0 eps 0 s4;
        (syn, s6) \<leftarrow> gradient_sample g 0 (- eps) 0 s5;
        (szp, s7) \<leftarrow> gradient_sample g 0 0 eps s6;
        (szn, s8) \<leftarrow> gradient_sample g 0 0 (- eps) s7;
        let gx = sxp - sxn;
        let gy = syp - syn;
        let gz = szp - szn;
        let s9 = s8\<lparr>obbResult_normal := V_normalize (Vector3 gx gy gz)\<rparr>;
        Some (if V_length (obbResult_normal s9) = 0
              then s9\<lparr>obbResult_normal := calculatePlanetNormal (closestCorner s9)\<rparr>
              else s9)
      })"

section \<open>workers/PhysicsWorker.js: the per-player step\<close>

record pstate =
  pos :: Vector3
  rot :: Quaternion
  velocity :: Vector3
  angularVelocity :: Vector3
  throttle :: real
  inputX :: real
  inputY :: real
  accel :: real
  pitchVel :: real
  rollVel :: real
  damping :: real
  playerSpeed :: real

text \<open>
  \<open>updatePlayerPhysics\<close> is one function in the source. Its three commented parts are
  three definitions here, composed below in the source's order. The scratch objects
  \<open>tmpForward\<close>, \<open>tmpRight\<close>, \<open>tmpPitchQuat\<close>, \<open>tmpRollQuat\<close> and \<open>tmpDesiredVel\<close> are
  each written before they are read and never passed on while another name for them is
  in use, so they are bound by \<open>let\<close>.

  Angular velocity and rotation: the new angular velocity and orientation.
\<close>

definition angular_step :: "pstate \<Rightarrow> (Vector3 \<times> Quaternion) option" where
  "angular_step st =
     (case Math_pow (damping st) FIXED_STEP of
        None \<Rightarrow> None
      | Some k \<Rightarrow>
          (let av0 = Vector3 (inputY st * pitchVel st) (y3 (angularVelocity st)) (inputX st * rollVel st);
               av1 = V_multiplyScalar av0 k;
               av2 = Vector3 (clamp (x3 av1) (- MAX_ANG) MAX_ANG) (y3 av1)
                       (clamp (z3 av1) (- MAX_ANG) MAX_ANG);
               tmpRight = V_normalize (V_applyQuaternion (Vector3 1 0 0) (rot st));
               tmpForward = V_normalize (V_applyQuaternion (Vector3 0 0 1) (rot st));
               tmpPitchQuat = Q_setFromAxisAngle tmpRight (x3 av2 * FIXED_STEP);
               tmpRollQuat = Q_setFromAxisAngle tmpForward (z3 av2 * FIXED_STEP)
           in Some (av2, Q_normalize (Q_premultiply (Q_premultiply (rot st) tmpRollQuat) tmpPitchQuat))))"

text \<open>
  The forward axis after the rotation, \<open>tmpForward.set(0, 0, -1).applyQuaternion(rot).normalize()\<close>,
  and the signed speed along it.
\<close>

definition forward_axis :: "Quaternion \<Rightarrow> Vector3" where
  "forward_axis r = V_normalize (V_applyQuaternion (Vector3 0 0 (- 1)) r)"

definition maxSpeed_of :: "real \<Rightarrow> real" where
  "maxSpeed_of currentPlayerSpeed = max 0.0001 (if currentPlayerSpeed = 0 then 1 else currentPlayerSpeed)"

text \<open>
  The update of the scalar \<open>speed\<close> (thrust, braking, drag and the clamp), from the speed
  before it.
\<close>

definition speed_update :: "real \<Rightarrow> real \<Rightarrow> real \<Rightarrow> real \<Rightarrow> real option" where
  "speed_update speed thr acc currentPlayerSpeed =
     (let maxSpeed = maxSpeed_of currentPlayerSpeed;
          maxBrakeSpeed = - maxSpeed * 0.5;
          ABS_SPEED_LIMIT = maxSpeed * 4
      in case (if thr > 0 then Some (min (speed + acc * thr * FIXED_STEP) maxSpeed)
               else if thr < 0 then Some (max (speed + acc * thr * FIXED_STEP) maxBrakeSpeed)
               else (case Math_pow 0.99 1.0 of None \<Rightarrow> None | Some k \<Rightarrow> Some (speed * k))) of
           None \<Rightarrow> None
         | Some speed' \<Rightarrow> Some (clamp speed' (- ABS_SPEED_LIMIT) ABS_SPEED_LIMIT))"

text \<open>Linear motion: the new velocity and position, given the new orientation.\<close>

definition linear_step :: "pstate \<Rightarrow> Quaternion \<Rightarrow> (Vector3 \<times> Vector3) option" where
  "linear_step st r =
     (let dt = FIXED_STEP;
          tmpForward = forward_axis r;
          speed = V_dot (velocity st) tmpForward
      in case speed_update speed (throttle st) (accel st) (playerSpeed st) of
           None \<Rightarrow> None
         | Some speed' \<Rightarrow>
             (let ABS_SPEED_LIMIT = maxSpeed_of (playerSpeed st) * 4;
                  tmpDesiredVel = V_multiplyScalar tmpForward speed';
                  SMOOTHING_RATE = 8.0;
                  lerpAlpha = min 1 (1 - exp (- SMOOTHING_RATE * min dt 2));
                  safeAlpha = clamp lerpAlpha 0 1;
                  v1 = V_lerp (velocity st) tmpDesiredVel safeAlpha;
                  velLen = V_length v1;
                  v2 = (if velLen > ABS_SPEED_LIMIT then V_multiplyScalar v1 (ABS_SPEED_LIMIT / velLen)
                        else v1)
              in Some (v2, V_add (pos st) (V_multiplyScalar v2 FIXED_STEP))))"

text \<open>
  Collision: \<open>obbSignedDistanceWithNormal(pos, _tmpA.set(1.0, 0.5, 2.0), rot, _obbResult)\<close>
  and the response. The half-extents argument is the scratch vector \<open>_tmpA\<close> itself.
\<close>

definition collision_step :: "globals \<Rightarrow> scratch \<Rightarrow> pstate \<Rightarrow> (scratch \<times> pstate) option" where
  "collision_step g s st =
     (case obbSignedDistanceWithNormal g (pos st) Ref_tmpA (rot st)
             (assign Ref_tmpA (Vector3 1.0 0.5 2.0) s) of
        None \<Rightarrow> None
      | Some s1 \<Rightarrow>
          (let distance = obbResult_distance s1;
               normal = obbResult_normal s1
           in if distance < playerRadius then
                (let penetration = playerRadius - distance;
                     pos' = Vector3 (x3 (pos st) + x3 normal * penetration)
                              (y3 (pos st) + y3 normal * penetration)
                              (z3 (pos st) + z3 normal * penetration);
                     vDotN = x3 (velocity st) * x3 normal + y3 (velocity st) * y3 normal
                               + z3 (velocity st) * z3 normal;
                     s2 = assign Ref_tmpB
                            (Vector3 (x3 normal * vDotN) (y3 normal * vDotN) (z3 normal * vDotN)) s1;
                     s3 = assign Ref_tmpCorner
                            (Vector3 (x3 (velocity st) - x3 (tmpB s2)) (y3 (velocity st) - y3 (tmpB s2))
                               (z3 (velocity st) - z3 (tmpB s2))) s2;
                     s4 = assign Ref_tmpB (V_multiplyScalar (tmpB s3) (- restitution g)) s3;
                     s5 = assign Ref_tmpCorner (V_multiplyScalar (tmpCorner s4) (slideFactor g)) s4;
                     velocity' = Vector3 (x3 (tmpCorner s5) + x3 (tmpB s5))
                                   (y3 (tmpCorner s5) + y3 (tmpB s5))
                                   (z3 (tmpCorner s5) + z3 (tmpB s5))
                 in Some (s5, st\<lparr>pos := pos', velocity := velocity',
                                  angularVelocity := V_multiplyScalar (angularVelocity st) 0.1\<rparr>))
              else Some (s1, st)))"

definition updatePlayerPhysics :: "globals \<Rightarrow> scratch \<Rightarrow> pstate \<Rightarrow> (scratch \<times> pstate) option" where
  "updatePlayerPhysics g s st =
     (case angular_step st of
        None \<Rightarrow> None
      | Some (av, r) \<Rightarrow>
          (case linear_step st r of
             None \<Rightarrow> None
           | Some (v, p) \<Rightarrow>
               collision_step g s (st\<lparr>pos := p, rot := r, velocity := v, angularVelocity := av\<rparr>)))"

text \<open>
  What the specification says the collision test measures: the signed distance of each
  of the eight corners of the box with the given centre, half-extents and orientation,
  and the least of them. It is compared with what the source computes.
\<close>

definition spec_corner :: "Vector3 \<Rightarrow> Vector3 \<Rightarrow> Quaternion \<Rightarrow> nat \<Rightarrow> Vector3" where
  "spec_corner center h orientation i =
     V_add (V_applyQuaternion
              (Vector3 ((if bit i 0 then 1 else - 1) * x3 h) ((if bit i 1 then 1 else - 1) * y3 h)
                 ((if bit i 2 then 1 else - 1) * z3 h)) orientation) center"

definition spec_corner_distance :: "globals \<Rightarrow> scratch \<Rightarrow> Vector3 \<Rightarrow> real option" where
  "spec_corner_distance g s c =
     map_option fst (signedDistanceToPlanet g Ref_tmpCorner (assign Ref_tmpCorner c s))"

section \<open>A concrete engine state\<close>

text \<open>
  Terrain parameters with \<open>uMaxHeight = 0\<close>, standard fBm and exponent 1: the surface is the
  sphere of radius \<open>planetRadius\<close>. \<open>flat_globals\<close> is such an engine with radius 350.
  \<open>resting_state\<close> is a craft at rest at \<open>(1, 0.5, -351.75)\<close> in the identity orientation
  with no input, tuned as the server's \<open>addPlayer\<close> message tunes it; the corner
  \<open>(-1, -0.5, +2)\<close> of its box is the point \<open>(0, 0, -349.75)\<close>.
\<close>

definition flat_terrain :: "globals \<Rightarrow> bool" where
  "flat_terrain g = (case fbmParams g of None \<Rightarrow> False
     | Some params \<Rightarrow> planetRadius g \<noteq> 0 \<and> \<not> useRidged params \<and> uExponentiation params = 1 \<and> uMaxHeight params = Some 0)"

definition flat_globals :: globals where
  "flat_globals = \<lparr>planetRadius = 350,
      fbmParams = Some \<lparr>uFrequency = 1, uLacunarity = 2, uPersistence = 0.5, uOctaves = 1,
         uExponentiation = 1, useRidged = False, uMaxHeight = Some 0\<rparr>,
      restitution = 0, slideFactor = 0\<rparr>"

definition resting_state :: pstate where
  "resting_state = \<lparr>pos = Vector3 1 0.5 (- 351.75), rot = Quaternion 0 0 0 1, velocity = Vector3 0 0 0,
     angularVelocity = Vector3 0 0 0, throttle = 0, inputX = 0, inputY = 0, accel = 1, pitchVel = 1,
     rollVel = 1, damping = 0.998, playerSpeed = 1\<rparr>"

text \<open>
  The worker's variables as the module initialises them, before any \<open>init\<close> message: no
  terrain parameters, \<open>planetRadius = 0\<close>, the scratch vectors zero and
  \<open>_obbResult = { distance: 0, normal: (0, 1, 0) }\<close>. \<open>cruising_state\<close> is the same craft flying
  along its forward axis \<open>(0, 0, -1)\<close> at its maximal speed 1 with full throttle.
\<close>

definition initial_globals :: globals where
  "initial_globals = \<lparr>planetRadius = 0, fbmParams = None, restitution = 0, slideFactor = 0\<rparr>"

definition initial_scratch :: scratch where
  "initial_scratch = \<lparr>tmpA = Vector3 0 0 0, tmpB = Vector3 0 0 0, tmpCorner = Vector3 0 0 0,
     closestCorner = Vector3 0 0 0, obbResult_distance = 0, obbResult_normal = Vector3 0 1 0\<rparr>"

definition cruising_state :: pstate where
  "cruising_state = resting_state\<lparr>velocity := Vector3 0 0 (- 1), throttle := 1\<rparr>"

section \<open>JavaScript numbers with their special values\<close>

text \<open>
  For the start poses the special values matter. A \<open>jsnum\<close> is a finite number (the real
  it denotes; rounding and overflow are not modelled), an infinity or NaN, with the IEEE-754
  rules for the special values. The model has one zero. Where a zero divides, it is taken
  as \<open>+0\<close>: every divisor in the code below is a result of \<open>Math.hypot\<close>, of
  \<open>Math.sqrt(\<dots>) * 2\<close> or of \<open>Math.max(1, \<dots>)\<close>, which are never \<open>-0\<close> there.
\<close>

datatype jsnum = Fin real | PInf | NInf | NaN

instantiation jsnum :: "{plus, minus, uminus, times, inverse}"
begin

definition uminus_jsnum :: "jsnum \<Rightarrow> jsnum" where
  "uminus_jsnum a = (case a of Fin x \<Rightarrow> Fin (- x) | PInf \<Rightarrow> NInf | NInf \<Rightarrow> PInf | NaN \<Rightarrow> NaN)"

definition plus_jsnum :: "jsnum \<Rightarrow> jsnum \<Rightarrow> jsnum" where
  "plus_jsnum a b =
     (case a of
        Fin x \<Rightarrow> (case b of Fin y \<Rightarrow> Fin (x + y) | PInf \<Rightarrow> PInf | NInf \<Rightarrow> NInf | NaN \<Rightarrow> NaN)
      | PInf \<Rightarrow> (case b of Fin y \<Rightarrow> PInf | PInf \<Rightarrow> PInf | NInf \<Rightarrow> NaN | NaN \<Rightarrow> NaN)
      | NInf \<Rightarrow> (case b of Fin y \<Rightarrow> NInf | PInf \<Rightarrow> NaN | NInf \<Rightarrow> NInf | NaN \<Rightarrow> NaN)
      | NaN \<Rightarrow> NaN)"

definition minus_jsnum :: "jsnum \<Rightarrow> jsnum \<Rightarrow> jsnum" where
  "minus_jsnum a b = a + (- b)"

definition times_jsnum :: "jsnum \<Rightarrow> jsnum \<Rightarrow> jsnum" where
  "times_jsnum a b =
     (case a of
        Fin x \<Rightarrow>
          (case b of
             Fin y \<Rightarrow> Fin (x * y)
           | PInf \<Rightarrow> (if x = 0 then NaN else if 0 < x then PInf else NInf)
           | NInf \<Rightarrow> (if x = 0 then NaN else if 0 < x then NInf else PInf)
           | NaN \<Rightarrow> NaN)
      | PInf \<Rightarrow>
          (case b of
             Fin y \<Rightarrow> (if y = 0 then NaN else if 0 < y then PInf else NInf)
           | PInf \<Rightarrow> PInf | NInf \<Rightarrow> NInf | NaN \<Rightarrow> NaN)
      | NInf \<Rightarrow>
          (case b of
             Fin y \<Rightarrow> (if y = 0 then NaN else if 0 < y then NInf else PInf)
           | PInf \<Rightarrow> NInf | NInf \<Rightarrow> PInf | NaN \<Rightarrow> NaN)
      | NaN \<Rightarrow> NaN)"

definition divide_jsnum :: "jsnum \<Rightarrow> jsnum \<Rightarrow> jsnum" where
  "divide_jsnum a b =
     (case a of
        Fin x \<Rightarrow>
          (case b of
             Fin y \<Rightarrow> (if y = 0 then (if x = 0 then NaN else if 0 < x then PInf else NInf)
                       else Fin (x / y))
           | PInf \<Rightarrow> Fin 0 | NInf \<Rightarrow> Fin 0 | NaN \<Rightarrow> NaN)
      | PInf \<Rightarrow> (case b of Fin y \<Rightarrow> (if 0 \<le> y then PInf else NInf) | PInf \<Rightarrow> NaN | NInf \<Rightarrow> NaN | NaN \<Rightarrow> NaN)
      | NInf \<Rightarrow> (case b of Fin y \<Rightarrow> (if 0 \<le> y then NInf else PInf) | PInf \<Rightarrow> NaN | NInf \<Rightarrow> NaN | NaN \<Rightarrow> NaN)
      | NaN \<Rightarrow> NaN)"

definition inverse_jsnum :: "jsnum \<Rightarrow> jsnum" where
  "inverse_jsnum a =
     (case a of Fin x \<Rightarrow> (if x = 0 then PInf else Fin (1 / x)) | PInf \<Rightarrow> Fin 0 | NInf \<Rightarrow> Fin 0
      | NaN \<Rightarrow> NaN)"

instance ..

end

text \<open>\<open>a > b\<close>: false when either side is NaN.\<close>

definition js_gt :: "jsnum \<Rightarrow> jsnum \<Rightarrow> bool" where
  "js_gt a b =
     (case a of
        Fin x \<Rightarrow> (case b of Fin y \<Rightarrow> x > y | PInf \<Rightarrow> False | NInf \<Rightarrow> True | NaN \<Rightarrow> False)
      | PInf \<Rightarrow> (case b of Fin y \<Rightarrow> True | PInf \<Rightarrow> False | NInf \<Rightarrow> True | NaN \<Rightarrow> False)
      | NInf \<Rightarrow> False
      | NaN \<Rightarrow> False)"

definition js_Math_max :: "jsnum \<Rightarrow> jsnum \<Rightarrow> jsnum" where
  "js_Math_max a b = (if a = NaN \<or> b = NaN then NaN else if js_gt b a then b else a)"

definition js_Math_min :: "jsnum \<Rightarrow> jsnum \<Rightarrow> jsnum" where
  "js_Math_min a b = (if a = NaN \<or> b = NaN then NaN else if js_gt a b then b else a)"

definition js_Math_floor :: "jsnum \<Rightarrow> jsnum" where
  "js_Math_floor a = (case a of Fin x \<Rightarrow> Fin (of_int \<lfloor>x\<rfloor>) | PInf \<Rightarrow> PInf | NInf \<Rightarrow> NInf | NaN \<Rightarrow> NaN)"

definition js_Math_sqrt :: "jsnum \<Rightarrow> jsnum" where
  "js_Math_sqrt a =
     (case a of Fin x \<Rightarrow> (if x < 0 then NaN else Fin (sqrt x)) | PInf \<Rightarrow> PInf | NInf \<Rightarrow> NaN
      | NaN \<Rightarrow> NaN)"

text \<open>\<open>Math.hypot\<close>: \<open>+Infinity\<close> if an argument is infinite, else NaN if one is NaN.\<close>

definition js_Math_hypot :: "jsnum \<Rightarrow> jsnum \<Rightarrow> jsnum \<Rightarrow> jsnum" where
  "js_Math_hypot a b c =
     (if a \<in> {PInf, NInf} \<or> b \<in> {PInf, NInf} \<or> c \<in> {PInf, NInf} then PInf
      else (case a of
              Fin x \<Rightarrow> (case b of
                          Fin y \<Rightarrow> (case c of Fin z \<Rightarrow> Fin (sqrt (x * x + y * y + z * z)) | _ \<Rightarrow> NaN)
                        | _ \<Rightarrow> NaN)
            | _ \<Rightarrow> NaN))"

section \<open>utils.js: start poses on the curve\<close>

datatype js_error = TypeError

type_synonym point = "jsnum \<times> jsnum \<times> jsnum"

record pose =
  position :: point
  quaternion :: "jsnum \<times> jsnum \<times> jsnum \<times> jsnum"

text \<open>
  \<open>points[i]\<close> for a number \<open>i\<close>: the element when \<open>i\<close> is an integer from 0 below the
  length, \<open>undefined\<close> (\<open>None\<close>) otherwise.
\<close>

fun js_index :: "'a list \<Rightarrow> jsnum \<Rightarrow> 'a option" where
  "js_index xs (Fin i) =
     (if i = of_int \<lfloor>i\<rfloor> \<and> 0 \<le> i \<and> nat \<lfloor>i\<rfloor> < length xs then Some (xs ! nat \<lfloor>i\<rfloor>) else None)"
| "js_index xs i = None"

definition lookRotation :: "point \<Rightarrow> point \<Rightarrow> jsnum \<times> jsnum \<times> jsnum \<times> jsnum" where
  "lookRotation forward up =
     (let forward0 = fst forward; forward1 = fst (snd forward); forward2 = snd (snd forward);
          up0 = fst up; up1 = fst (snd up); up2 = snd (snd up);
          z0 = - forward0; z1 = - forward1; z2 = - forward2;
          x0 = up1 * z2 - up2 * z1;
          x1 = up2 * z0 - up0 * z2;
          x2 = up0 * z1 - up1 * z0;
          lx = js_Math_hypot x0 x1 x2;
          x0 = x0 / lx; x1 = x1 / lx; x2 = x2 / lx;
          y0 = z1 * x2 - z2 * x1;
          y1 = z2 * x0 - z0 * x2;
          y2 = z0 * x1 - z1 * x0;
          m00 = x0; m01 = y0; m02 = z0;
          m10 = x1; m11 = y1; m12 = z1;
          m20 = x2; m21 = y2; m22 = z2;
          tr = m00 + m11 + m22
      in if js_gt tr (Fin 0) then
           (let S = js_Math_sqrt (tr + Fin 1.0) * Fin 2
            in ((m21 - m12) / S, (m02 - m20) / S, (m10 - m01) / S, Fin 0.25 * S))
         else if js_gt m00 m11 \<and> js_gt m00 m22 then
           (let S = js_Math_sqrt (Fin 1.0 + m00 - m11 - m22) * Fin 2
            in (Fin 0.25 * S, (m01 + m10) / S, (m02 + m20) / S, (m21 - m12) / S))
         else if js_gt m11 m22 then
           (let S = js_Math_sqrt (Fin 1.0 + m11 - m00 - m22) * Fin 2
            in ((m01 + m10) / S, Fin 0.25 * S, (m12 + m21) / S, (m02 - m20) / S))
         else
           (let S = js_Math_sqrt (Fin 1.0 + m22 - m00 - m11) * Fin 2
            in ((m02 + m20) / S, (m12 + m21) / S, Fin 0.25 * S, (m10 - m01) / S)))"

text \<open>
  \<open>getStartPoseFromCurve(points, distance)\<close>. Reading \<open>p0[0]\<close> of an \<open>undefined\<close> \<open>p0\<close>
  throws a \<open>TypeError\<close>. The result tuple of \<open>lookRotation\<close> is \<open>[qx, qy, qz, qw]\<close>.
\<close>

definition getStartPoseFromCurve :: "point list \<Rightarrow> jsnum \<Rightarrow> js_error + pose" where
  "getStartPoseFromCurve points distance =
     (let n = Fin (real (length points));
          t = js_Math_min (js_Math_max distance (Fin 0)) (Fin 1);
          index = t * (n - Fin 1);
          i0 = js_Math_floor index;
          i1 = js_Math_min (i0 + Fin 1) (n - Fin 1);
          alpha = index - i0
      in case js_index points i0 of
           None \<Rightarrow> Inl TypeError
         | Some (p00, p01, p02) \<Rightarrow>
             (case js_index points i1 of
                None \<Rightarrow> Inl TypeError
              | Some (p10, p11, p12) \<Rightarrow>
                  (let position' = (p00 + (p10 - p00) * alpha,
                                    p01 + (p11 - p01) * alpha,
                                    p02 + (p12 - p02) * alpha);
                       tangent0 = p10 - p00;
                       tangent1 = p11 - p01;
                       tangent2 = p12 - p02;
                       len = js_Math_hypot tangent0 tangent1 tangent2;
                       tangent0 = tangent0 / len;
                       tangent1 = tangent1 / len;
                       tangent2 = tangent2 / len;
                       quat = lookRotation (tangent0, tangent1, tangent2) (Fin 0, Fin 1, Fin 0)
                   in Inr \<lparr>position = position', quaternion = quat\<rparr>)))"

text \<open>
  The precomputation of the start poses in the worker's \<open>init\<close> and \<open>addPlayer\<close>:
  \<open>curvePoints.map((_, i) => getStartPoseFromCurve(curvePoints, i / Math.max(1, numPositions - 1)))\<close>.
  The worker has its own copy of \<open>getStartPoseFromCurve\<close> and \<open>lookRotation\<close>, the same text
  but for \<open>&&\<close> in place of \<open>&\<close> between the two comparisons.
\<close>

definition startPose_at :: "point list \<Rightarrow> nat \<Rightarrow> js_error + pose" where
  "startPose_at curvePoints i =
     getStartPoseFromCurve curvePoints
       (Fin (real i) / js_Math_max (Fin 1) (Fin (real (length curvePoints)) - Fin 1))"

definition precompute_startPositions :: "point list \<Rightarrow> (js_error + pose) list" where
  "precompute_startPositions curvePoints = map (startPose_at curvePoints) [0 ..< length curvePoints]"

text \<open>
  What the specification says the position is: linear interpolation on the segment that
  the distance fraction, clamped to \<open>[0, 1]\<close>, falls into. On real coordinates.
\<close>

definition spec_curve_position :: "(real \<times> real \<times> real) list \<Rightarrow> real \<Rightarrow> real \<times> real \<times> real" where
  "spec_curve_position pts d =
     (let t = min (max d 0) 1;
          idx = t * (real (length pts) - 1);
          k = nat \<lfloor>idx\<rfloor>;
          a = idx - real k
      in if Suc k < length pts
         then (case (pts ! k, pts ! Suc k) of
                 ((x0, y0, z0), (x1, y1, z1)) \<Rightarrow> (x0 + (x1 - x0) * a, y0 + (y1 - y0) * a, z0 + (z1 - z0) * a))
         else pts ! (length pts - 1))"

fun fin_point :: "real \<times> real \<times> real \<Rightarrow> point" where
  "fin_point (a, b, c) = (Fin a, Fin b, Fin c)"

section \<open>server.js: rooms, players and workers\<close>

text \<open>
  Player and room ids are \<open>uuidv4()\<close> strings; here they are naturals drawn from a counter.
  A payload's content that the server only passes on (name, terrain parameters, curve
  points, throttle, axis, tuning) is a value of a type parameter \<open>'d\<close>, \<open>None\<close> when
  the message has no payload. Messages sent to clients (\<open>send\<close>, \<open>broadcast\<close>, \<open>log\<close>) change
  no state and are not modelled.
\<close>

type_synonym pid = nat

type_synonym rid = nat

definition MAX_PLAYERS_PER_ROOM :: nat where
  "MAX_PLAYERS_PER_ROOM = 8"

datatype phase = Lobby | Pregame | Racecountdown | Racing | Finished

text \<open>A roster entry. \<open>start_position\<close> is the field \<open>position\<close>, set by \<open>assignStartPositions\<close>.\<close>

record player =
  joinedAt :: nat
  ready :: bool
  score :: nat
  finishedAt :: "nat option"
  start_position :: "nat option"

text \<open>The messages the server posts to a physics worker (and the worker dispatches on).\<close>

datatype 'd command =
    AddPlayer "pid option" "'d option"
  | RemovePlayer "pid option"
  | Config pid "'d option"
  | Start
  | Stop
  | Init "'d option"
  | Input pid "'d option"
  | Other

text \<open>
  A \<open>Worker\<close> object as the main thread sees it, with the variables of the closure made in
  \<open>getOrCreateOpenRoom\<close>: \<open>posted\<close> is the sequence of \<open>worker.postMessage\<close> calls,
  \<open>once_armed\<close> says that the \<open>worker.once('message', \<dots>)\<close> listener has not run yet, and
  \<open>creator\<close>, \<open>creator_data\<close> are the \<open>playerId\<close> and the join payload the listener captured.
\<close>

record 'd worker =
  posted :: "'d command list"
  workerReady :: bool
  pendingMessages :: "'d command list"
  once_armed :: bool
  terminated :: bool
  creator :: pid
  creator_data :: "'d option"

text \<open>
  A room. A countdown timer is the interval handle together with the counter \<open>t\<close> of its
  callback: \<open>Some t\<close> while the interval is armed. \<open>physicsWorker\<close> is the handle of the
  room's worker (the room's own id) or \<open>null\<close>.
\<close>

record room =
  players :: "(pid \<times> player) list"
  phase :: phase
  pregameTimer :: "int option"
  raceTimer :: "int option"
  raceStartAt :: "nat option"
  physicsWorker :: "rid option"

text \<open>
  The server: \<open>state.rooms\<close> in insertion order, every worker created so far, \<open>ws.roomId\<close> of
  every open connection (keyed by the connection's \<open>playerId\<close>), the uuid counter and the
  environment flag \<open>ALLOW_FORCE_START\<close>.
\<close>

record 'd server =
  rooms :: "(rid \<times> room) list"
  workers :: "(rid \<times> 'd worker) list"
  sockets :: "(pid \<times> rid option) list"
  fresh :: nat
  allowForceStart :: bool

definition server_init :: "bool \<Rightarrow> 'd server" where
  "server_init force = \<lparr>rooms = [], workers = [], sockets = [], fresh = 0, allowForceStart = force\<rparr>"

definition getRoom :: "'d server \<Rightarrow> rid \<Rightarrow> room option" where
  "getRoom st roomId = map_of (rooms st) roomId"

definition set_room :: "rid \<Rightarrow> room \<Rightarrow> 'd server \<Rightarrow> 'd server" where
  "set_room roomId r st = st\<lparr>rooms := AList.update roomId r (rooms st)\<rparr>"

text \<open>\<open>worker.postMessage(msg)\<close>; a terminated worker receives nothing.\<close>

definition postMessage :: "rid \<Rightarrow> 'd command \<Rightarrow> 'd server \<Rightarrow> 'd server" where
  "postMessage h msg st =
     st\<lparr>workers := AList.map_entry h
            (\<lambda>w. if terminated w then w else w\<lparr>posted := posted w @ [msg]\<rparr>) (workers st)\<rparr>"

definition new_player :: "nat \<Rightarrow> player" where
  "new_player now = \<lparr>joinedAt = now, ready = False, score = 0, finishedAt = None, start_position = None\<rparr>"

text \<open>
  \<open>getOrCreateOpenRoom\<close>: the first room in the lobby phase with fewer than the maximum of
  players, else a new room with a new worker. For a new room the player is entered and
  \<open>addPlayer\<close> is posted to the worker at once, with \<open>worker.postMessage\<close>.
\<close>

definition is_open :: "rid \<times> room \<Rightarrow> bool" where
  "is_open e = (phase (snd e) = Lobby \<and> length (players (snd e)) < MAX_PLAYERS_PER_ROOM)"

definition getOrCreateOpenRoom :: "pid \<Rightarrow> 'd option \<Rightarrow> nat \<Rightarrow> 'd server \<Rightarrow> rid \<times> 'd server" where
  "getOrCreateOpenRoom playerId payload now st =
     (case List.find is_open (rooms st) of
        Some (roomId, r) \<Rightarrow> (roomId, st)
      | None \<Rightarrow>
          (let newRoomId = fresh st;
               newRoom = \<lparr>players = [(playerId, new_player now)], phase = Lobby, pregameTimer = None,
                           raceTimer = None, raceStartAt = None, physicsWorker = Some newRoomId\<rparr>;
               w = \<lparr>posted = [], workerReady = False, pendingMessages = [], once_armed = True,
                     terminated = False, creator = playerId, creator_data = payload\<rparr>;
               st1 = st\<lparr>fresh := Suc (fresh st), workers := workers st @ [(newRoomId, w)]\<rparr>;
               st2 = postMessage newRoomId (AddPlayer (Some playerId) payload) st1
           in (newRoomId, st2\<lparr>rooms := AList.update newRoomId newRoom (rooms st2)\<rparr>)))"

text \<open>
  The listener \<open>worker.once('message', \<dots>)\<close>. It runs on the first message from the worker,
  whatever its type. \<open>sendToWorker\<close> posts when \<open>workerReady\<close> and queues otherwise; it is
  called nowhere else.
\<close>

datatype worker_msg_type = W_ready | W_log | W_tick | W_stateUpdate

definition sendToWorker :: "rid \<Rightarrow> 'd command \<Rightarrow> 'd server \<Rightarrow> 'd server" where
  "sendToWorker h msg st =
     (case map_of (workers st) h of
        None \<Rightarrow> st
      | Some w \<Rightarrow>
          if workerReady w then postMessage h msg st
          else st\<lparr>workers := AList.update h (w\<lparr>pendingMessages := pendingMessages w @ [msg]\<rparr>) (workers st)\<rparr>)"

definition on_worker_message :: "rid \<Rightarrow> worker_msg_type \<Rightarrow> 'd server \<Rightarrow> 'd server" where
  "on_worker_message h ty st =
     (case map_of (workers st) h of
        None \<Rightarrow> st
      | Some w \<Rightarrow>
          if terminated w \<or> \<not> once_armed w then st
          else if ty = W_ready then
            (let st1 = st\<lparr>workers := AList.update h (w\<lparr>once_armed := False, workerReady := True\<rparr>) (workers st)\<rparr>;
                 st2 = fold (postMessage h) (pendingMessages w) st1;
                 st3 = st2\<lparr>workers := AList.map_entry h (\<lambda>w. w\<lparr>pendingMessages := []\<rparr>) (workers st2)\<rparr>;
                 st4 = sendToWorker h (Init (creator_data w)) st3;
                 st5 = sendToWorker h Start st4
             in sendToWorker h (AddPlayer (Some (creator w)) (creator_data w)) st5)
          else st\<lparr>workers := AList.update h (w\<lparr>once_armed := False\<rparr>) (workers st)\<rparr>)"

text \<open>The listener \<open>worker.on('exit', \<dots>)\<close>.\<close>

definition on_worker_exit :: "rid \<Rightarrow> 'd server \<Rightarrow> 'd server" where
  "on_worker_exit h st =
     (case getRoom st h of None \<Rightarrow> st | Some r \<Rightarrow> set_room h (r\<lparr>physicsWorker := None\<rparr>) st)"

text \<open>
  \<open>assignStartPositions\<close>: the players sorted by \<open>joinedAt\<close> (the sort is stable) get the
  positions 1, 2, \<dots>; the roster keeps its order.
\<close>

definition rank_of :: "(pid \<times> player) list \<Rightarrow> pid \<Rightarrow> nat" where
  "rank_of ps p = length (takeWhile (\<lambda>e. fst e \<noteq> p) (sort_key (\<lambda>e. joinedAt (snd e)) ps))"

definition assignStartPositions :: "rid \<Rightarrow> 'd server \<Rightarrow> 'd server" where
  "assignStartPositions roomId st =
     (case getRoom st roomId of
        None \<Rightarrow> st
      | Some r \<Rightarrow>
          set_room roomId
            (r\<lparr>players := map (\<lambda>(p, pl). (p, pl\<lparr>start_position := Some (rank_of (players r) p + 1)\<rparr>))
                              (players r)\<rparr>) st)"

definition cleanupRoom :: "rid \<Rightarrow> pid \<Rightarrow> 'd server \<Rightarrow> 'd server" where
  "cleanupRoom roomId playerId st =
     (case getRoom st roomId of
        None \<Rightarrow> st
      | Some r \<Rightarrow>
          (let st1 = (case physicsWorker r of
                        None \<Rightarrow> st
                      | Some h \<Rightarrow>
                          (let st' = postMessage h Stop (postMessage h (RemovePlayer (Some playerId)) st)
                           in st'\<lparr>workers := AList.map_entry h (\<lambda>w. w\<lparr>terminated := True\<rparr>) (workers st')\<rparr>))
           in st1\<lparr>rooms := AList.delete roomId (rooms st1)\<rparr>))"

definition startPregameCountdown :: "rid \<Rightarrow> int \<Rightarrow> 'd server \<Rightarrow> 'd server" where
  "startPregameCountdown roomId seconds st =
     (case getRoom st roomId of
        None \<Rightarrow> st
      | Some r \<Rightarrow>
          if phase r \<noteq> Lobby then st
          else set_room roomId (r\<lparr>phase := Pregame, pregameTimer := Some seconds\<rparr>) st)"

definition startRaceCountdown :: "rid \<Rightarrow> int \<Rightarrow> 'd server \<Rightarrow> 'd server" where
  "startRaceCountdown roomId seconds st =
     (case getRoom st roomId of
        None \<Rightarrow> st
      | Some r \<Rightarrow> set_room roomId (r\<lparr>phase := Racecountdown, raceTimer := Some seconds\<rparr>) st)"

definition startRace :: "rid \<Rightarrow> nat \<Rightarrow> 'd server \<Rightarrow> 'd server" where
  "startRace roomId now st =
     (case getRoom st roomId of
        None \<Rightarrow> st
      | Some r \<Rightarrow> set_room roomId (r\<lparr>phase := Racing, raceStartAt := Some now\<rparr>) st)"

definition endRace :: "rid \<Rightarrow> 'd server \<Rightarrow> 'd server" where
  "endRace roomId st =
     (case getRoom st roomId of
        None \<Rightarrow> st
      | Some r \<Rightarrow> set_room roomId (r\<lparr>phase := Finished\<rparr>) st)"

text \<open>
  The callbacks of the two countdown intervals, run when an armed interval fires: \<open>t--\<close>,
  then the end of the countdown at \<open>t <= 0\<close>. An interval that is not armed does not fire.
\<close>

definition pregame_tick :: "rid \<Rightarrow> 'd server \<Rightarrow> 'd server" where
  "pregame_tick roomId st =
     (case getRoom st roomId of
        None \<Rightarrow> st
      | Some r \<Rightarrow>
          (case pregameTimer r of
             None \<Rightarrow> st
           | Some t \<Rightarrow>
               if t - 1 \<le> 0
               then startRaceCountdown roomId 5
                      (assignStartPositions roomId (set_room roomId (r\<lparr>pregameTimer := None\<rparr>) st))
               else set_room roomId (r\<lparr>pregameTimer := Some (t - 1)\<rparr>) st))"

definition race_tick :: "rid \<Rightarrow> nat \<Rightarrow> 'd server \<Rightarrow> 'd server" where
  "race_tick roomId now st =
     (case getRoom st roomId of
        None \<Rightarrow> st
      | Some r \<Rightarrow>
          (case raceTimer r of
             None \<Rightarrow> st
           | Some t \<Rightarrow>
               if t - 1 \<le> 0
               then startRace roomId now (set_room roomId (r\<lparr>raceTimer := None\<rparr>) st)
               else set_room roomId (r\<lparr>raceTimer := Some (t - 1)\<rparr>) st))"

text \<open>
  A message from a client, after \<open>JSON.parse\<close>: text that does not parse, the JSON value
  \<open>null\<close> (destructuring it throws), or an object with its \<open>type\<close> and \<open>payload\<close>. For
  \<open>setReady\<close> the payload is the truth value of \<open>payload.ready\<close>.
\<close>

datatype 'd client_msg =
    Unparseable
  | Json_null
  | Join "'d option"
  | Removed
  | SetReady "bool option"
  | InputMsg "'d option"
  | ConfigMsg "'d option"
  | Finish
  | StartNow
  | OtherType

text \<open>
  \<open>ws.on('message', \<dots>)\<close> for the connection of \<open>playerId\<close> at time \<open>now\<close>. The handler is a
  sequence of \<open>if (type === \<dots>)\<close> blocks; a message has one type, so one block runs, and
  every block after \<open>removed\<close> runs only when \<open>ws.roomId\<close> is set. An exception leaves the
  handler (and nothing catches it): the result is then the error.
\<close>

definition on_join :: "pid \<Rightarrow> nat \<Rightarrow> 'd option \<Rightarrow> 'd server \<Rightarrow> 'd server" where
  "on_join playerId now payload st =
     (case getOrCreateOpenRoom playerId payload now st of
        (roomId, st1) \<Rightarrow>
          (let st2 = st1\<lparr>sockets := AList.update playerId (Some roomId) (sockets st1)\<rparr>
           in case getRoom st2 roomId of
                None \<Rightarrow> st2
              | Some r \<Rightarrow>
                  if map_of (players r) playerId = None then
                    (let st3 = set_room roomId
                                 (r\<lparr>players := AList.update playerId (new_player now) (players r)\<rparr>) st2
                     in case physicsWorker r of
                          None \<Rightarrow> st3
                        | Some h \<Rightarrow> postMessage h (AddPlayer (Some playerId) payload) st3)
                  else st2))"

definition on_removed :: "pid \<Rightarrow> rid \<Rightarrow> 'd server \<Rightarrow> 'd server" where
  "on_removed playerId roomId st =
     (case getRoom st roomId of
        None \<Rightarrow> st
      | Some r \<Rightarrow>
          if map_of (players r) playerId = None then st
          else
            (let st1 = (case physicsWorker r of
                          None \<Rightarrow> st
                        | Some h \<Rightarrow> postMessage h (RemovePlayer (Some playerId)) st)
             in set_room roomId (r\<lparr>players := AList.delete playerId (players r)\<rparr>) st1))"

definition on_setReady :: "pid \<Rightarrow> rid \<Rightarrow> bool option \<Rightarrow> 'd server \<Rightarrow> js_error + 'd server" where
  "on_setReady playerId roomId payload st =
     (case getRoom st roomId of
        None \<Rightarrow> Inl TypeError
      | Some r \<Rightarrow>
          (case map_of (players r) playerId of
             None \<Rightarrow> Inr st
           | Some p \<Rightarrow>
               (case payload of
                  None \<Rightarrow> Inl TypeError
                | Some b \<Rightarrow>
                    Inr (set_room roomId
                           (r\<lparr>players := AList.update playerId (p\<lparr>ready := b\<rparr>) (players r)\<rparr>) st))))"

definition on_input :: "pid \<Rightarrow> rid \<Rightarrow> 'd option \<Rightarrow> 'd server \<Rightarrow> js_error + 'd server" where
  "on_input playerId roomId payload st =
     (case getRoom st roomId of
        None \<Rightarrow> Inl TypeError
      | Some r \<Rightarrow>
          (case map_of (players r) playerId of
             None \<Rightarrow> Inr st
           | Some p \<Rightarrow>
               (case physicsWorker r of
                  None \<Rightarrow> Inr st
                | Some h \<Rightarrow>
                    (case payload of
                       None \<Rightarrow> Inl TypeError
                     | Some d \<Rightarrow> Inr (postMessage h (Input playerId payload) st)))))"

definition on_config :: "pid \<Rightarrow> rid \<Rightarrow> 'd option \<Rightarrow> 'd server \<Rightarrow> 'd server" where
  "on_config playerId roomId payload st =
     (case getRoom st roomId of
        None \<Rightarrow> st
      | Some r \<Rightarrow>
          (case physicsWorker r of
             None \<Rightarrow> st
           | Some h \<Rightarrow> postMessage h (Config playerId payload) st))"

text \<open>\<open>every(pl => pl.finishedAt)\<close> tests the time stamp for its truthiness.\<close>

definition truthy_time :: "nat option \<Rightarrow> bool" where
  "truthy_time t = (case t of None \<Rightarrow> False | Some n \<Rightarrow> n \<noteq> 0)"

definition on_finish :: "pid \<Rightarrow> rid \<Rightarrow> nat \<Rightarrow> 'd server \<Rightarrow> 'd server" where
  "on_finish playerId roomId now st =
     (case getRoom st roomId of
        None \<Rightarrow> st
      | Some r \<Rightarrow>
          (case map_of (players r) playerId of
             None \<Rightarrow> st
           | Some p \<Rightarrow>
               (let ps = AList.update playerId (p\<lparr>finishedAt := Some now, score := score p + 1\<rparr>) (players r);
                    st1 = set_room roomId (r\<lparr>players := ps\<rparr>) st;
                    allFinished = list_all (\<lambda>e. truthy_time (finishedAt (snd e))) ps
                in if allFinished then endRace roomId st1 else st1)))"

definition on_message :: "pid \<Rightarrow> nat \<Rightarrow> 'd client_msg \<Rightarrow> 'd server \<Rightarrow> js_error + 'd server" where
  "on_message playerId now msg st =
     (case msg of
        Unparseable \<Rightarrow> Inr st
      | Json_null \<Rightarrow> Inl TypeError
      | Join payload \<Rightarrow> Inr (on_join playerId now payload st)
      | _ \<Rightarrow>
          (case map_of (sockets st) playerId of
             None \<Rightarrow> Inr st
           | Some None \<Rightarrow> Inr st
           | Some (Some roomId) \<Rightarrow>
               (case msg of
                  Removed \<Rightarrow> Inr (on_removed playerId roomId st)
                | SetReady payload \<Rightarrow> on_setReady playerId roomId payload st
                | InputMsg payload \<Rightarrow> on_input playerId roomId payload st
                | ConfigMsg payload \<Rightarrow> Inr (on_config playerId roomId payload st)
                | Finish \<Rightarrow> Inr (on_finish playerId roomId now st)
                | StartNow \<Rightarrow>
                    Inr (if allowForceStart st then startPregameCountdown roomId 3 st else st)
                | _ \<Rightarrow> Inr st)))"

text \<open>
  \<open>ws.on('close', \<dots>)\<close>: an empty room is deleted with its timers cleared; then
  \<open>cleanupRoom(roomId, playerId)\<close> is called in every case. The connection is gone afterwards.
\<close>

definition on_close :: "pid \<Rightarrow> 'd server \<Rightarrow> 'd server" where
  "on_close playerId st =
     (let st' =
        (case map_of (sockets st) playerId of
           None \<Rightarrow> st
         | Some None \<Rightarrow> st
         | Some (Some roomId) \<Rightarrow>
             (let st1 = (case getRoom st roomId of
                           None \<Rightarrow> st
                         | Some r \<Rightarrow>
                             if length (players r) = 0
                             then st\<lparr>rooms := AList.delete roomId (rooms st)\<rparr>
                             else st)
              in cleanupRoom roomId playerId st1))
      in st'\<lparr>sockets := AList.delete playerId (sockets st')\<rparr>)"

text \<open>
  The events of the server: a new connection (which gets the next id), a message or the
  close of a connection, the firing of a room's countdown interval, a message from a
  worker and the exit of a worker. A message on a connection that does not exist, or a
  message from a worker that was never created, changes nothing.
\<close>

datatype 'd event =
    Connection
  | Message pid nat "'d client_msg"
  | Close pid
  | PregameTick rid
  | RaceTick rid nat
  | WorkerMessage rid worker_msg_type
  | WorkerExit rid

definition server_step :: "'d event \<Rightarrow> 'd server \<Rightarrow> js_error + 'd server" where
  "server_step ev st =
     (case ev of
        Connection \<Rightarrow> Inr (st\<lparr>sockets := AList.update (fresh st) None (sockets st), fresh := Suc (fresh st)\<rparr>)
      | Message playerId now msg \<Rightarrow>
          (if map_of (sockets st) playerId = None then Inr st else on_message playerId now msg st)
      | Close playerId \<Rightarrow> Inr (on_close playerId st)
      | PregameTick roomId \<Rightarrow> Inr (pregame_tick roomId st)
      | RaceTick roomId now \<Rightarrow> Inr (race_tick roomId now st)
      | WorkerMessage h ty \<Rightarrow> Inr (on_worker_message h ty st)
      | WorkerExit h \<Rightarrow> Inr (on_worker_exit h st))"

fun server_run :: "'d event list \<Rightarrow> 'd server \<Rightarrow> js_error + 'd server" where
  "server_run [] st = Inr st"
| "server_run (ev # evs) st =
     (case server_step ev st of Inl e \<Rightarrow> Inl e | Inr st' \<Rightarrow> server_run evs st')"

definition room_phase :: "'d server \<Rightarrow> rid \<Rightarrow> phase option" where
  "room_phase st roomId = map_option phase (getRoom st roomId)"

section \<open>workers/PhysicsWorker.js: the engine's timers and messages\<close>

text \<open>
  The worker has two intervals: \<open>interval\<close>, armed by \<open>start\<close>, whose callback posts a \<open>tick\<close>
  message, and \<open>physicsInterval\<close>, armed by \<open>startFixedUpdateLoop\<close>, whose callback is
  \<open>updatePhysics\<close>. \<open>setInterval\<close> returns a new handle and \<open>clearInterval\<close> disarms the
  interval of a handle; \<open>timers\<close> lists the armed intervals.

  What a command does to one player's state or to the terrain and curve data is left
  open here (\<open>player_ops\<close>, total functions: an exception in a handler is not modelled);
  the step of a player is \<open>updatePlayerPhysics\<close>. The \<open>PhysicsWorker:log\<close> messages are not
  modelled.
\<close>

datatype timer_kind = TickTimer | PhysicsTimer

datatype 'p out_msg = Ready_msg | Tick_msg | StateUpdate_msg "(pid \<times> 'p) list"

record ('p, 'e) engine =
  running :: bool
  interval :: "nat option"
  physicsInterval :: "nat option"
  timers :: "(nat \<times> timer_kind) list"
  next_timer :: nat
  engine_players :: "(pid \<times> 'p) list"
  env :: 'e

record ('d, 'p, 'e) player_ops =
  op_init :: "'d option \<Rightarrow> 'e \<Rightarrow> 'e"
  op_addPlayer :: "'d option \<Rightarrow> 'e \<Rightarrow> 'p \<times> 'e"
  op_config :: "'d option \<Rightarrow> 'p \<Rightarrow> 'p"
  op_input :: "'d option \<Rightarrow> 'p \<Rightarrow> 'p"
  op_step :: "'e \<Rightarrow> 'p \<Rightarrow> 'p"

definition engine_init :: "'e \<Rightarrow> ('p, 'e) engine" where
  "engine_init e = \<lparr>running = False, interval = None, physicsInterval = None, timers = [],
                     next_timer = 0, engine_players = [], env = e\<rparr>"

definition setInterval :: "timer_kind \<Rightarrow> ('p, 'e) engine \<Rightarrow> nat \<times> ('p, 'e) engine" where
  "setInterval k st =
     (next_timer st, st\<lparr>timers := timers st @ [(next_timer st, k)], next_timer := Suc (next_timer st)\<rparr>)"

definition clearInterval :: "nat option \<Rightarrow> ('p, 'e) engine \<Rightarrow> ('p, 'e) engine" where
  "clearInterval h st =
     (case h of None \<Rightarrow> st | Some i \<Rightarrow> st\<lparr>timers := filter (\<lambda>t. fst t \<noteq> i) (timers st)\<rparr>)"

definition start :: "('p, 'e) engine \<Rightarrow> ('p, 'e) engine" where
  "start st =
     (if running st then st
      else (case setInterval TickTimer (st\<lparr>running := True\<rparr>) of
              (i, st1) \<Rightarrow> st1\<lparr>interval := Some i\<rparr>))"

definition stop :: "('p, 'e) engine \<Rightarrow> ('p, 'e) engine" where
  "stop st = (clearInterval (interval st) (st\<lparr>running := False\<rparr>))\<lparr>interval := None\<rparr>"

definition startFixedUpdateLoop :: "('p, 'e) engine \<Rightarrow> ('p, 'e) engine" where
  "startFixedUpdateLoop st =
     (let st1 = (if physicsInterval st \<noteq> None then clearInterval (physicsInterval st) st else st)
      in case setInterval PhysicsTimer st1 of
           (i, st2) \<Rightarrow> st2\<lparr>physicsInterval := Some i\<rparr>)"

definition init :: "('d, 'p, 'e) player_ops \<Rightarrow> 'd option \<Rightarrow> ('p, 'e) engine \<Rightarrow> ('p, 'e) engine" where
  "init ops d st = startFixedUpdateLoop (st\<lparr>env := op_init ops d (env st)\<rparr>)"

text \<open>\<open>updatePhysics\<close>: every player is stepped, then one \<open>stateUpdate\<close> snapshot is posted.\<close>

definition updatePhysics ::
  "('d, 'p, 'e) player_ops \<Rightarrow> ('p, 'e) engine \<Rightarrow> ('p, 'e) engine \<times> 'p out_msg list" where
  "updatePhysics ops st =
     (let ps = map (\<lambda>(i, p). (i, op_step ops (env st) p)) (engine_players st)
      in (st\<lparr>engine_players := ps\<rparr>, [StateUpdate_msg ps]))"

text \<open>The dispatch in \<open>parentPort.on('message', \<dots>)\<close>.\<close>

definition engine_receive ::
  "('d, 'p, 'e) player_ops \<Rightarrow> 'd command \<Rightarrow> ('p, 'e) engine \<Rightarrow> ('p, 'e) engine" where
  "engine_receive ops cmd st =
     (case cmd of
        AddPlayer None d \<Rightarrow> st
      | AddPlayer (Some p) d \<Rightarrow>
          (case op_addPlayer ops d (env st) of
             (ps, e) \<Rightarrow> st\<lparr>engine_players := AList.update p ps (engine_players st), env := e\<rparr>)
      | RemovePlayer None \<Rightarrow> st
      | RemovePlayer (Some p) \<Rightarrow> st\<lparr>engine_players := AList.delete p (engine_players st)\<rparr>
      | Config p d \<Rightarrow> st\<lparr>engine_players := AList.map_entry p (op_config ops d) (engine_players st)\<rparr>
      | Start \<Rightarrow> start st
      | Stop \<Rightarrow> stop st
      | Init d \<Rightarrow> init ops d st
      | Input p d \<Rightarrow> st\<lparr>engine_players := AList.map_entry p (op_input ops d) (engine_players st)\<rparr>
      | Other \<Rightarrow> st)"

text \<open>
  An event of the engine: a command arrives, or the interval of a handle fires (nothing
  happens when it is not armed). A step returns the messages it posts to the main thread.
\<close>

datatype 'd engine_event = Receive "'d command" | Fires nat

definition engine_step ::
  "('d, 'p, 'e) player_ops \<Rightarrow> 'd engine_event \<Rightarrow> ('p, 'e) engine \<Rightarrow> ('p, 'e) engine \<times> 'p out_msg list" where
  "engine_step ops ev st =
     (case ev of
        Receive cmd \<Rightarrow> (engine_receive ops cmd st, [])
      | Fires i \<Rightarrow>
          (case map_of (timers st) i of
             None \<Rightarrow> (st, [])
           | Some TickTimer \<Rightarrow> (st, [Tick_msg])
           | Some PhysicsTimer \<Rightarrow> updatePhysics ops st))"

fun engine_run ::
  "('d, 'p, 'e) player_ops \<Rightarrow> 'd engine_event list \<Rightarrow> ('p, 'e) engine \<Rightarrow> ('p, 'e) engine \<times> 'p out_msg list" where
  "engine_run ops [] st = (st, [])"
| "engine_run ops (ev # evs) st =
     (case engine_step ops ev st of
        (st1, out1) \<Rightarrow> (case engine_run ops evs st1 of (st2, out2) \<Rightarrow> (st2, out1 @ out2)))"

definition is_StateUpdate :: "'p out_msg \<Rightarrow> bool" where
  "is_StateUpdate m = (case m of StateUpdate_msg s \<Rightarrow> True | _ \<Rightarrow> False)"

text \<open>An engine with no terrain data and no player data, for concrete runs.\<close>

definition unit_ops :: "(unit, unit, unit) player_ops" where
  "unit_ops = \<lparr>op_init = (\<lambda>d e. e), op_addPlayer = (\<lambda>d e. ((), e)), op_config = (\<lambda>d p. p),
                op_input = (\<lambda>d p. p), op_step = (\<lambda>e p. p)\<rparr>"

text \<open>
  An invariant of the engine: the handles are below the next handle and distinct, the only
  armed tick interval is the one \<open>interval\<close> holds, \<open>interval\<close> and \<open>physicsInterval\<close> hold
  armed intervals of their kind, and \<open>running\<close> says whether \<open>interval\<close> is set.
\<close>

definition no_tick_timer :: "('p, 'e) engine \<Rightarrow> bool" where
  "no_tick_timer st = list_all (\<lambda>t. snd t \<noteq> TickTimer) (timers st)"

definition engine_inv :: "('p, 'e) engine \<Rightarrow> bool" where
  "engine_inv st =
     (list_all (\<lambda>t. fst t < next_timer st) (timers st)
      \<and> distinct (map fst (timers st))
      \<and> list_all (\<lambda>t. snd t = TickTimer \<longrightarrow> interval st = Some (fst t)) (timers st)
      \<and> (case physicsInterval st of None \<Rightarrow> True
          | Some i \<Rightarrow> map_of (timers st) i = Some PhysicsTimer)
      \<and> (case interval st of None \<Rightarrow> True | Some i \<Rightarrow> map_of (timers st) i = Some TickTimer)
      \<and> running st = (interval st \<noteq> None))"

section \<open>Concrete server states\<close>

text \<open>
  The server after one connection has joined at time 5, with \<open>ALLOW_FORCE_START\<close> set: the
  connection is player 0 and the room, with its worker, has the id 1. \<open>with_timers\<close> puts
  room 1 of a state into a phase with the given countdown counters.
\<close>

definition lobby_state :: "unit server" where
  "lobby_state =
     \<lparr>rooms = [(1, \<lparr>players = [(0, new_player 5)], phase = Lobby, pregameTimer = None,
                     raceTimer = None, raceStartAt = None, physicsWorker = Some 1\<rparr>)],
      workers = [(1, \<lparr>posted = [AddPlayer (Some 0) None], workerReady = False, pendingMessages = [],
                       once_armed = True, terminated = False, creator = 0, creator_data = None\<rparr>)],
      sockets = [(0, Some 1)], fresh = 2, allowForceStart = True\<rparr>"

definition with_timers :: "phase \<Rightarrow> int option \<Rightarrow> int option \<Rightarrow> unit server \<Rightarrow> unit server" where
  "with_timers ph pt rt st =
     st\<lparr>rooms := AList.map_entry 1 (\<lambda>r. r\<lparr>phase := ph, pregameTimer := pt, raceTimer := rt\<rparr>) (rooms st)\<rparr>"

section \<open>Properties: the terrain field\<close>

lemma Math_pow_one: "Math_pow x 1 = Some x"
  by (simp add: Math_pow_def)

lemma fbmStandard_loop_closed:
  "fbmStandard_loop noiseFn (p0, p1, p2) lacunarity persistence octaves i sm amp f calls =
     (sm + (\<Sum>k < nat \<lceil>octaves\<rceil> - i.
              noiseFn (p0 * (f * lacunarity ^ k), p1 * (f * lacunarity ^ k), p2 * (f * lacunarity ^ k))
                * (amp * persistence ^ k)),
      calls @ map (\<lambda>k. (p0 * (f * lacunarity ^ k), p1 * (f * lacunarity ^ k), p2 * (f * lacunarity ^ k)))
                [0 ..< nat \<lceil>octaves\<rceil> - i])"
proof (induction "nat \<lceil>octaves\<rceil> - i" arbitrary: i sm amp f calls)
  case 0
  then have "\<lceil>octaves\<rceil> \<le> int i" by linarith
  then have "octaves \<le> real i" by (simp add: ceiling_le_iff)
  then have "\<not> real i < octaves" by simp
  with 0 show ?case by (subst fbmStandard_loop.simps) simp
next
  case (Suc n)
  then have "int i < \<lceil>octaves\<rceil>" by linarith
  then have lt: "real i < octaves" using less_ceiling_iff[of "int i" octaves] by simp
  have n: "n = nat \<lceil>octaves\<rceil> - Suc i" using Suc.hyps(2) by simp
  let ?pt = "\<lambda>g. (p0 * g, p1 * g, p2 * g)"
  have step: "fbmStandard_loop noiseFn (p0, p1, p2) lacunarity persistence octaves i sm amp f calls =
      fbmStandard_loop noiseFn (p0, p1, p2) lacunarity persistence octaves (Suc i)
          (sm + noiseFn (?pt f) * amp) (amp * persistence) (f * lacunarity) (calls @ [?pt f])"
    using lt by (subst fbmStandard_loop.simps) simp
  have s: "(\<Sum>k < Suc n. noiseFn (?pt (f * lacunarity ^ k)) * (amp * persistence ^ k)) =
        noiseFn (?pt f) * amp
        + (\<Sum>k < n. noiseFn (?pt (f * lacunarity * lacunarity ^ k)) * (amp * persistence * persistence ^ k))"
    by (subst sum.lessThan_Suc_shift) (simp add: mult.assoc)
  have m: "map (\<lambda>k. ?pt (f * lacunarity ^ k)) [0 ..< Suc n] =
        ?pt f # map (\<lambda>k. ?pt (f * lacunarity * lacunarity ^ k)) [0 ..< n]"
    by (subst map_upt_Suc) (simp add: mult.assoc)
  show ?case
    unfolding step Suc.hyps(1)[OF n] Suc.hyps(2)[symmetric] n[symmetric] s m
    by simp
qed

text \<open>
  C7. \<open>fbmStandard\<close> returns the sum, over the octaves \<open>i = 0, 1, \<dots>\<close> below \<open>octaves\<close>, of
  \<open>noiseFn (p \<cdot> f\<^sub>i) \<cdot> amp\<^sub>i\<close> with \<open>f\<^sub>i = freq \<cdot> lacunarity\<^sup>i\<close> and
  \<open>amp\<^sub>i = 0.5 \<cdot> persistence\<^sup>i\<close>, and it calls the noise function on exactly the points
  \<open>p \<cdot> f\<^sub>i\<close>, in this order (the number of octaves run is \<open>\<lceil>octaves\<rceil>\<close>, none when that is
  negative). With a noise function that is constantly 1, \<open>octaves = 3\<close>, \<open>freq = 2\<close>,
  \<open>lacunarity = 3\<close> and \<open>persistence = 0.5\<close> at the point \<open>(1, 2, 3)\<close> the calls are on
  \<open>(2, 4, 6)\<close>, \<open>(6, 12, 18)\<close>, \<open>(18, 36, 54)\<close> and the result is \<open>0.875\<close>.
\<close>

theorem C7_fbmStandard_sum:
  "fbmStandard (p0, p1, p2) freq lacunarity persistence octaves noiseFn =
     (\<Sum>i < nat \<lceil>octaves\<rceil>.
        noiseFn (p0 * (freq * lacunarity ^ i), p1 * (freq * lacunarity ^ i), p2 * (freq * lacunarity ^ i))
          * (0.5 * persistence ^ i))
   \<and> fbmStandard_calls (p0, p1, p2) freq lacunarity persistence octaves noiseFn =
       map (\<lambda>i. (p0 * (freq * lacunarity ^ i), p1 * (freq * lacunarity ^ i), p2 * (freq * lacunarity ^ i)))
         [0 ..< nat \<lceil>octaves\<rceil>]
   \<and> fbmStandard (1, 2, 3) 2 3 0.5 3 (\<lambda>p. 1) = 0.875
   \<and> fbmStandard_calls (1, 2, 3) 2 3 0.5 3 (\<lambda>p. 1) = [(2, 4, 6), (6, 12, 18), (18, 36, 54)]"
proof -
  have run: "fbmStandard_run (1, 2, 3) 2 3 0.5 3 (\<lambda>p. 1) = (0.875, [(2, 4, 6), (6, 12, 18), (18, 36, 54)])"
    by (simp add: fbmStandard_run_def fbmStandard_loop.simps)
  have general: "fbmStandard_run (p0, p1, p2) freq lacunarity persistence octaves noiseFn =
     ((\<Sum>i < nat \<lceil>octaves\<rceil>.
        noiseFn (p0 * (freq * lacunarity ^ i), p1 * (freq * lacunarity ^ i), p2 * (freq * lacunarity ^ i))
          * (0.5 * persistence ^ i)),
      map (\<lambda>i. (p0 * (freq * lacunarity ^ i), p1 * (freq * lacunarity ^ i), p2 * (freq * lacunarity ^ i)))
         [0 ..< nat \<lceil>octaves\<rceil>])"
    by (simp add: fbmStandard_run_def fbmStandard_loop_closed)
  show ?thesis
    unfolding fbmStandard_def fbmStandard_calls_def run general fst_conv snd_conv
    by (intro conjI refl)
qed

theorem C7_fbmStandard_sum_witness:
  "fbmStandard (1, 1, 1) 1 2 0.5 2 (\<lambda>p. fst p) = 1
   \<and> fbmStandard_calls (1, 1, 1) 1 2 0.5 2 (\<lambda>p. fst p) = [(1, 1, 1), (2, 2, 2)]"
  using C7_fbmStandard_sum [of 1 1 1 1 2 "0.5" 2 "\<lambda>p. fst p"]
  by (simp add: numeral_2_eq_2)

lemma ridgedFBM_loop_closed:
  "ridgedFBM_loop noiseFn (p0, p1, p2) lacunarity persistence octaves i sm amp f =
     sm + (\<Sum>k < nat \<lceil>octaves\<rceil> - i.
              ridge (noiseFn (p0 * (f * lacunarity ^ k), p1 * (f * lacunarity ^ k), p2 * (f * lacunarity ^ k)))
                * (amp * persistence ^ k))"
proof (induction "nat \<lceil>octaves\<rceil> - i" arbitrary: i sm amp f)
  case 0
  then have "\<lceil>octaves\<rceil> \<le> int i" by linarith
  then have "octaves \<le> real i" by (simp add: ceiling_le_iff)
  then have "\<not> real i < octaves" by simp
  with 0 show ?case by (subst ridgedFBM_loop.simps) simp
next
  case (Suc n)
  then have "int i < \<lceil>octaves\<rceil>" by linarith
  then have lt: "real i < octaves" using less_ceiling_iff[of "int i" octaves] by simp
  have n: "n = nat \<lceil>octaves\<rceil> - Suc i" using Suc.hyps(2) by simp
  let ?pt = "\<lambda>g. (p0 * g, p1 * g, p2 * g)"
  have step: "ridgedFBM_loop noiseFn (p0, p1, p2) lacunarity persistence octaves i sm amp f =
      ridgedFBM_loop noiseFn (p0, p1, p2) lacunarity persistence octaves (Suc i)
          (sm + ridge (noiseFn (?pt f)) * amp) (amp * persistence) (f * lacunarity)"
    using lt by (subst ridgedFBM_loop.simps) simp
  have s: "(\<Sum>k < Suc n. ridge (noiseFn (?pt (f * lacunarity ^ k))) * (amp * persistence ^ k)) =
        ridge (noiseFn (?pt f)) * amp
        + (\<Sum>k < n. ridge (noiseFn (?pt (f * lacunarity * lacunarity ^ k)))
                     * (amp * persistence * persistence ^ k))"
    by (subst sum.lessThan_Suc_shift) (simp add: mult.assoc)
  show ?case
    unfolding step Suc.hyps(1)[OF n] Suc.hyps(2)[symmetric] n[symmetric] s
    by simp
qed

lemma ridgedFBM_spec:
  "ridgedFBM p freq lacunarity persistence octaves noiseFn =
     spec_ridged_sum noiseFn p freq lacunarity persistence (nat \<lceil>octaves\<rceil>)"
  by (cases p) (simp add: ridgedFBM_def ridgedFBM_loop_closed)

lemma detail_octaves: "nat \<lceil>max 3 (Math_floor (oct / 2))\<rceil> = nat (max 3 \<lfloor>oct / 2\<rfloor>)"
proof -
  have "max 3 (Math_floor (oct / 2)) = of_int (max 3 \<lfloor>oct / 2\<rfloor>)"
    by (simp add: Math_floor_def max_def)
  then show ?thesis by (simp only: ceiling_of_int)
qed

text \<open>
  C8. \<open>terrainElevationRidged\<close> is \<open>(base + detail \<cdot> 0.3)\<close> raised to \<open>uExponentiation\<close>, where
  \<open>base\<close> is the ridged fBm at \<open>uFrequency\<close> with the configured octaves and \<open>detail\<close> is the
  ridged fBm at frequency \<open>uFrequency \<cdot> 2.5\<close> with \<open>max(3, floor(uOctaves / 2))\<close> octaves, at the
  position moved by \<open>0.3\<close> times a warp vector whose components are the noise at
  \<open>pos \<cdot> 0.5\<close>, at \<open>pos \<cdot> 0.5\<close> with 100 added on the first axis, and at \<open>pos \<cdot> 0.5\<close> with 200
  added on the second axis.
\<close>

theorem C8_terrainElevationRidged:
  "terrainElevationRidged (pos0, pos1, pos2) params noiseFn =
     Math_pow
       (spec_ridged_sum noiseFn (pos0, pos1, pos2) (uFrequency params) (uLacunarity params)
          (uPersistence params) (nat \<lceil>uOctaves params\<rceil>)
        + spec_ridged_sum noiseFn
            (pos0 + noiseFn (pos0 * 0.5, pos1 * 0.5, pos2 * 0.5) * 0.3,
             pos1 + noiseFn (pos0 * 0.5 + 100, pos1 * 0.5, pos2 * 0.5) * 0.3,
             pos2 + noiseFn (pos0 * 0.5, pos1 * 0.5 + 200, pos2 * 0.5) * 0.3)
            (uFrequency params * 2.5) (uLacunarity params) (uPersistence params)
            (nat (max 3 \<lfloor>uOctaves params / 2\<rfloor>)) * 0.3)
       (uExponentiation params)"
  unfolding terrainElevationRidged.simps Let_def ridgedFBM_spec detail_octaves
  by (rule refl)

theorem C8_terrainElevationRidged_witness:
  "terrainElevationRidged (1, 2, 3)
     \<lparr>uFrequency = 1.5, uLacunarity = 2, uPersistence = 0.5, uOctaves = 4, uExponentiation = 2,
      useRidged = True, uMaxHeight = None\<rparr> (\<lambda>p. 0.5) = Some 0.09"
  using C8_terrainElevationRidged [of 1 2 3
     "\<lparr>uFrequency = 1.5, uLacunarity = 2, uPersistence = 0.5, uOctaves = 4, uExponentiation = 2,
      useRidged = True, uMaxHeight = None\<rparr>" "\<lambda>p. 0.5"]
  by (simp add: ridge_def Math_pow_def numeral_eq_Suc lessThan_Suc power2_eq_square)

section \<open>Properties: the per-player step\<close>

lemma maxSpeed_of_pos: "0 < maxSpeed_of ps"
  by (simp add: maxSpeed_of_def max_def)

lemma speed_update_value:
  "speed_update speed thr acc ps =
     Some (clamp (if 0 < thr then min (speed + acc * thr * FIXED_STEP) (maxSpeed_of ps)
                  else if thr < 0 then max (speed + acc * thr * FIXED_STEP) (- 0.5 * maxSpeed_of ps)
                  else speed * 0.99)
             (- (4 * maxSpeed_of ps)) (4 * maxSpeed_of ps))"
  by (simp add: speed_update_def Math_pow_def Let_def mult.commute)

lemma clamp_abs: "0 \<le> b \<Longrightarrow> \<bar>clamp v (- b) b\<bar> \<le> b"
  by (auto simp: clamp_def max_def min_def)

lemma clamp_id: "lo \<le> v \<Longrightarrow> v \<le> hi \<Longrightarrow> clamp v lo hi = v"
  by (simp add: clamp_def max_def min_def)

lemma linear_step_value:
  "linear_step st r =
     (let sp = the (speed_update (V_dot (velocity st) (forward_axis r)) (throttle st) (accel st) (playerSpeed st));
          v1 = V_lerp (velocity st) (V_multiplyScalar (forward_axis r) sp)
                 (clamp (min 1 (1 - exp (- 8 * min FIXED_STEP 2))) 0 1);
          v2 = (if V_length v1 > maxSpeed_of (playerSpeed st) * 4
                then V_multiplyScalar v1 (maxSpeed_of (playerSpeed st) * 4 / V_length v1) else v1)
      in Some (v2, V_add (pos st) (V_multiplyScalar v2 FIXED_STEP)))"
  by (simp add: linear_step_def speed_update_value Let_def)

lemma collision_no_terrain:
  assumes "fbmParams g = None \<or> planetRadius g = 0"
  shows "collision_step g s st =
     Some (s\<lparr>tmpA := Vector3 1.0 0.5 2.0, obbResult_distance := 1000, obbResult_normal := Vector3 0 1 0\<rparr>, st)"
  using assms by (simp add: collision_step_def obbSignedDistanceWithNormal_def playerRadius_def)

lemma angular_cruising: "angular_step cruising_state = Some (Vector3 0 0 0, Quaternion 0 0 0 1)"
  by (simp add: cruising_state_def angular_step_def resting_state_def Math_pow_def FIXED_STEP_def clamp_def
        MAX_ANG_def V_normalize_def Q_setFromAxisAngle_def Q_normalize_def)

lemma forward_identity: "forward_axis (Quaternion 0 0 0 1) = Vector3 0 0 (- 1)"
  by (simp add: forward_axis_def V_normalize_def)

text \<open>
  C6. Every tick (\<open>updatePlayerPhysics\<close>) of every player, first conjunct: with \<open>r\<close> the
  orientation that the rotation part of the tick (\<open>angular_step\<close>) has just computed, the
  scalar speed is the dot product of the velocity with the forward axis of \<open>r\<close>; it is
  updated by the rule below; the velocity is blended towards that axis times the updated
  speed and the position advanced by it; and the tick's result is the collision response on
  the state so moved, which is that state itself while no terrain is loaded. The tick has no
  result only when \<open>Math.pow(damping, \<Delta>t)\<close> is NaN. The second conjunct is the same blend for
  the linear part alone, at any orientation. The update (third conjunct): for a positive
  throttle \<open>min (speed + acceleration \<cdot> throttle \<cdot> \<Delta>t) maxSpeed\<close>, for a negative one
  \<open>max (speed + acceleration \<cdot> throttle \<cdot> \<Delta>t) (-0.5 \<cdot> maxSpeed)\<close>, for throttle 0 the speed times
  the fixed factor 0.99, whatever \<open>\<Delta>t\<close> is; the result is then clamped to \<open>\<plusminus>4 \<cdot> maxSpeed\<close>. So
  with a non-negative acceleration a speed at most \<open>maxSpeed\<close> rises towards \<open>maxSpeed\<close> and
  never passes it, and a speed at least \<open>-0.5 \<cdot> maxSpeed\<close> falls towards \<open>-0.5 \<cdot> maxSpeed\<close> and
  never passes it. \<open>maxSpeed\<close> is the source's \<open>Math.max(0.0001, playerSpeed || 1)\<close>.
\<close>

theorem C6_speed_update:
  "updatePlayerPhysics g s st =
     (case angular_step st of
        None \<Rightarrow> None
      | Some (av, r) \<Rightarrow>
          (let speed = V_dot (velocity st) (forward_axis r);
               maxSpeed = maxSpeed_of (playerSpeed st);
               sp = clamp (if 0 < throttle st then min (speed + accel st * throttle st * FIXED_STEP) maxSpeed
                           else if throttle st < 0
                                then max (speed + accel st * throttle st * FIXED_STEP) (- 0.5 * maxSpeed)
                           else speed * 0.99)
                      (- (4 * maxSpeed)) (4 * maxSpeed);
               v1 = V_lerp (velocity st) (V_multiplyScalar (forward_axis r) sp)
                      (clamp (min 1 (1 - exp (- 8 * min FIXED_STEP 2))) 0 1);
               v = (if V_length v1 > maxSpeed * 4 then V_multiplyScalar v1 (maxSpeed * 4 / V_length v1)
                    else v1);
               moved = st\<lparr>pos := V_add (pos st) (V_multiplyScalar v FIXED_STEP), rot := r, velocity := v,
                          angularVelocity := av\<rparr>
           in if fbmParams g = None \<or> planetRadius g = 0
              then Some (s\<lparr>tmpA := Vector3 1.0 0.5 2.0, obbResult_distance := 1000,
                            obbResult_normal := Vector3 0 1 0\<rparr>, moved)
              else collision_step g s moved))
   \<and> (\<exists>sp v p.
      speed_update (V_dot (velocity st) (forward_axis r)) (throttle st) (accel st) (playerSpeed st) = Some sp
      \<and> linear_step st r = Some (v, p)
      \<and> v = (let v1 = V_lerp (velocity st) (V_multiplyScalar (forward_axis r) sp)
                         (clamp (min 1 (1 - exp (- 8 * min FIXED_STEP 2))) 0 1)
              in if V_length v1 > maxSpeed_of (playerSpeed st) * 4
                 then V_multiplyScalar v1 (maxSpeed_of (playerSpeed st) * 4 / V_length v1) else v1))
   \<and> (\<exists>sp. speed_update speed thr acc ps = Some sp
         \<and> sp = clamp (if 0 < thr then min (speed + acc * thr * FIXED_STEP) (maxSpeed_of ps)
                       else if thr < 0 then max (speed + acc * thr * FIXED_STEP) (- 0.5 * maxSpeed_of ps)
                       else speed * 0.99)
                  (- (4 * maxSpeed_of ps)) (4 * maxSpeed_of ps)
         \<and> \<bar>sp\<bar> \<le> 4 * maxSpeed_of ps
         \<and> (0 < thr \<and> 0 \<le> acc \<and> - (4 * maxSpeed_of ps) \<le> speed \<and> speed \<le> maxSpeed_of ps \<longrightarrow>
              sp = min (speed + acc * thr * FIXED_STEP) (maxSpeed_of ps) \<and> speed \<le> sp \<and> sp \<le> maxSpeed_of ps)
         \<and> (thr < 0 \<and> 0 \<le> acc \<and> - 0.5 * maxSpeed_of ps \<le> speed \<and> speed \<le> 4 * maxSpeed_of ps \<longrightarrow>
              sp = max (speed + acc * thr * FIXED_STEP) (- 0.5 * maxSpeed_of ps) \<and> - 0.5 * maxSpeed_of ps \<le> sp
              \<and> sp \<le> speed)
         \<and> (thr = 0 \<and> \<bar>speed\<bar> \<le> 4 * maxSpeed_of ps \<longrightarrow> sp = speed * 0.99))"
proof (intro conjI)
  show "updatePlayerPhysics g s st =
     (case angular_step st of
        None \<Rightarrow> None
      | Some (av, r) \<Rightarrow>
          (let speed = V_dot (velocity st) (forward_axis r);
               maxSpeed = maxSpeed_of (playerSpeed st);
               sp = clamp (if 0 < throttle st then min (speed + accel st * throttle st * FIXED_STEP) maxSpeed
                           else if throttle st < 0
                                then max (speed + accel st * throttle st * FIXED_STEP) (- 0.5 * maxSpeed)
                           else speed * 0.99)
                      (- (4 * maxSpeed)) (4 * maxSpeed);
               v1 = V_lerp (velocity st) (V_multiplyScalar (forward_axis r) sp)
                      (clamp (min 1 (1 - exp (- 8 * min FIXED_STEP 2))) 0 1);
               v = (if V_length v1 > maxSpeed * 4 then V_multiplyScalar v1 (maxSpeed * 4 / V_length v1)
                    else v1);
               moved = st\<lparr>pos := V_add (pos st) (V_multiplyScalar v FIXED_STEP), rot := r, velocity := v,
                          angularVelocity := av\<rparr>
           in if fbmParams g = None \<or> planetRadius g = 0
              then Some (s\<lparr>tmpA := Vector3 1.0 0.5 2.0, obbResult_distance := 1000,
                            obbResult_normal := Vector3 0 1 0\<rparr>, moved)
              else collision_step g s moved))"
    by (simp add: updatePlayerPhysics_def linear_step_value speed_update_value collision_no_terrain Let_def
          split: option.splits prod.splits)
next
  show "\<exists>sp v p.
      speed_update (V_dot (velocity st) (forward_axis r)) (throttle st) (accel st) (playerSpeed st) = Some sp
      \<and> linear_step st r = Some (v, p)
      \<and> v = (let v1 = V_lerp (velocity st) (V_multiplyScalar (forward_axis r) sp)
                         (clamp (min 1 (1 - exp (- 8 * min FIXED_STEP 2))) 0 1)
              in if V_length v1 > maxSpeed_of (playerSpeed st) * 4
                 then V_multiplyScalar v1 (maxSpeed_of (playerSpeed st) * 4 / V_length v1) else v1)"
    unfolding linear_step_value by (simp add: speed_update_value Let_def)
next
  let ?ms = "maxSpeed_of ps"
  let ?raw = "if 0 < thr then min (speed + acc * thr * FIXED_STEP) ?ms
              else if thr < 0 then max (speed + acc * thr * FIXED_STEP) (- 0.5 * ?ms)
              else speed * 0.99"
  let ?sp = "clamp ?raw (- (4 * ?ms)) (4 * ?ms)"
  have ms: "0 < ?ms" by (rule maxSpeed_of_pos)
  have dt: "0 < FIXED_STEP" by (simp add: FIXED_STEP_def)
  have b: "\<bar>?sp\<bar> \<le> 4 * ?ms"
    using ms by (intro clamp_abs) simp
  have up: "sp = min (speed + acc * thr * FIXED_STEP) ?ms \<and> speed \<le> sp \<and> sp \<le> ?ms"
    if "0 < thr" "0 \<le> acc" "- (4 * ?ms) \<le> speed" "speed \<le> ?ms" "sp = ?sp" for sp
  proof -
    have "0 \<le> acc * thr * FIXED_STEP" using that dt by simp
    then have "speed \<le> min (speed + acc * thr * FIXED_STEP) ?ms" using that by simp
    moreover have "min (speed + acc * thr * FIXED_STEP) ?ms \<le> ?ms" by simp
    ultimately show ?thesis
      using that ms by (simp add: clamp_id)
  qed
  have down: "sp = max (speed + acc * thr * FIXED_STEP) (- 0.5 * ?ms) \<and> - 0.5 * ?ms \<le> sp \<and> sp \<le> speed"
    if "thr < 0" "0 \<le> acc" "- 0.5 * ?ms \<le> speed" "speed \<le> 4 * ?ms" "sp = ?sp" for sp
  proof -
    have "thr * FIXED_STEP \<le> 0"
      using that(1) dt by (simp add: mult_le_0_iff)
    with that(2) have "acc * (thr * FIXED_STEP) \<le> 0"
      by (rule mult_nonneg_nonpos)
    then have "max (speed + acc * thr * FIXED_STEP) (- 0.5 * ?ms) \<le> speed" using that by (simp add: mult.assoc)
    moreover have "- 0.5 * ?ms \<le> max (speed + acc * thr * FIXED_STEP) (- 0.5 * ?ms)" by simp
    ultimately show ?thesis
      using that ms by (simp add: clamp_id)
  qed
  have zero: "sp = speed * 0.99" if "thr = 0" "\<bar>speed\<bar> \<le> 4 * ?ms" "sp = ?sp" for sp
  proof -
    have "\<bar>speed * 0.99\<bar> \<le> \<bar>speed\<bar>" by (simp add: abs_mult)
    then show ?thesis using that by (simp add: clamp_id abs_le_iff)
  qed
  show "\<exists>sp. speed_update speed thr acc ps = Some sp
         \<and> sp = ?sp
         \<and> \<bar>sp\<bar> \<le> 4 * ?ms
         \<and> (0 < thr \<and> 0 \<le> acc \<and> - (4 * ?ms) \<le> speed \<and> speed \<le> ?ms \<longrightarrow>
              sp = min (speed + acc * thr * FIXED_STEP) ?ms \<and> speed \<le> sp \<and> sp \<le> ?ms)
         \<and> (thr < 0 \<and> 0 \<le> acc \<and> - 0.5 * ?ms \<le> speed \<and> speed \<le> 4 * ?ms \<longrightarrow>
              sp = max (speed + acc * thr * FIXED_STEP) (- 0.5 * ?ms) \<and> - 0.5 * ?ms \<le> sp
              \<and> sp \<le> speed)
         \<and> (thr = 0 \<and> \<bar>speed\<bar> \<le> 4 * ?ms \<longrightarrow> sp = speed * 0.99)"
    using speed_update_value[of speed thr acc ps] b up down zero by blast
qed

theorem C6_speed_update_witness:
  "speed_update 0 1 60 1 = Some 1 \<and> speed_update 1 (- 1) 60 1 = Some 0
   \<and> speed_update 1 0 60 1 = Some 0.99 \<and> speed_update 100 1 60 1 = Some 1
   \<and> updatePlayerPhysics initial_globals initial_scratch cruising_state =
       Some (initial_scratch\<lparr>tmpA := Vector3 1 (1/2) 2, obbResult_distance := 1000\<rparr>,
             cruising_state\<lparr>pos := Vector3 1 (1/2) (- (10553 / 30))\<rparr>)"
proof -
  have "updatePlayerPhysics initial_globals initial_scratch cruising_state =
       Some (initial_scratch\<lparr>tmpA := Vector3 1 (1/2) 2, obbResult_distance := 1000\<rparr>,
             cruising_state\<lparr>pos := Vector3 1 (1/2) (- (10553 / 30))\<rparr>)"
    using C6_speed_update [where g = initial_globals and s = initial_scratch and st = cruising_state,
        THEN conjunct1]
    unfolding angular_cruising
    by (simp add: forward_identity initial_globals_def initial_scratch_def cruising_state_def
          resting_state_def maxSpeed_of_def FIXED_STEP_def clamp_def Let_def)
  then show ?thesis
    using C6_speed_update [where speed = 0 and thr = 1 and acc = 60 and ps = 1, THEN conjunct2, THEN conjunct2]
      C6_speed_update [where speed = 1 and thr = "- 1" and acc = 60 and ps = 1, THEN conjunct2, THEN conjunct2]
      C6_speed_update [where speed = 1 and thr = 0 and acc = 60 and ps = 1, THEN conjunct2, THEN conjunct2]
      C6_speed_update [where speed = 100 and thr = 1 and acc = 60 and ps = 1, THEN conjunct2, THEN conjunct2]
    by (auto simp add: maxSpeed_of_def FIXED_STEP_def clamp_def)
qed

lemma V_apply_identity: "V_applyQuaternion v (Quaternion 0 0 0 1) = v"
  by (cases v) simp

lemma V_length_signs:
  "V_length (Vector3 ((if a then 1 else - 1) * x) ((if b then 1 else - 1) * y) ((if c then 1 else - 1) * z))
     = V_length (Vector3 x y z)"
  by simp

lemma V_length_nonneg: "0 \<le> V_length v"
  by (cases v) (simp add: )

lemma V_length_triangle: "V_length (V_add a c) \<le> V_length a + V_length c"
proof (cases a; cases c)
  fix ax ay az cx cy cz
  assume a: "a = Vector3 ax ay az" and c: "c = Vector3 cx cy cz"
  let ?p = "sqrt (ax\<^sup>2 + ay\<^sup>2)" and ?q = "sqrt (cx\<^sup>2 + cy\<^sup>2)"
  have 1: "sqrt ((ax + cx)\<^sup>2 + (ay + cy)\<^sup>2) \<le> ?p + ?q"
    by (rule real_sqrt_sum_squares_triangle_ineq)
  have "sqrt ((ax + cx)\<^sup>2 + (ay + cy)\<^sup>2 + (az + cz)\<^sup>2)
        = sqrt ((sqrt ((ax + cx)\<^sup>2 + (ay + cy)\<^sup>2))\<^sup>2 + (az + cz)\<^sup>2)"
    by simp
  also have "\<dots> \<le> sqrt ((?p + ?q)\<^sup>2 + (az + cz)\<^sup>2)"
    using 1 by (intro real_sqrt_le_mono add_right_mono power_mono) simp_all
  also have "\<dots> \<le> sqrt (?p\<^sup>2 + az\<^sup>2) + sqrt (?q\<^sup>2 + cz\<^sup>2)"
    by (rule real_sqrt_sum_squares_triangle_ineq)
  also have "\<dots> = sqrt (ax\<^sup>2 + ay\<^sup>2 + az\<^sup>2) + sqrt (cx\<^sup>2 + cy\<^sup>2 + cz\<^sup>2)"
    by simp
  finally show ?thesis
    by (simp add: a c power2_eq_square)
qed

lemma V_length_multiplyScalar: "V_length (V_multiplyScalar v s) = \<bar>s\<bar> * V_length v"
proof (cases v)
  case (Vector3 x y z)
  have "x * s * (x * s) + y * s * (y * s) + z * s * (z * s) = s\<^sup>2 * (x * x + y * y + z * z)"
    by (simp add: power2_eq_square algebra_simps)
  then show ?thesis
    by (simp add: Vector3 real_sqrt_mult)
qed

lemma V_length_normalize: "V_length (V_normalize v) = (if V_length v > 0 then 1 else 0)"
  using V_length_nonneg[of v]
  by (auto simp: V_normalize_def Let_def V_length_multiplyScalar)

lemma V_length_normalize_le: "V_length (V_normalize v) \<le> 1"
  by (simp add: V_length_normalize)

lemma sdf_flat:
  assumes "flat_terrain g"
  shows "signedDistanceToPlanet g p s =
           Some (V_length (deref (st_normalize Ref_tmpA (st_copy Ref_tmpA p s)) p) - planetRadius g,
                 st_normalize Ref_tmpA (st_copy Ref_tmpA p s))"
  using assms
  by (auto simp: flat_terrain_def signedDistanceToPlanet_def terrainElevationFBM_def Math_pow_one Let_def
           split: option.splits)

lemma V_length_reverse_triangle: "V_length c - V_length a \<le> V_length (V_add a c)"
proof -
  have "V_add (V_add a c) (V_multiplyScalar a (- 1)) = c"
    by (cases a; cases c) simp
  then have "V_length c \<le> V_length (V_add a c) + V_length (V_multiplyScalar a (- 1))"
    using V_length_triangle[of "V_add a c" "V_multiplyScalar a (- 1)"] by simp
  then show ?thesis
    by (simp add: V_length_multiplyScalar)
qed

lemma obb_corner_loop_flat:
  assumes "flat_terrain g" and "V_length (tmpA s) \<le> 1" and "b \<le> m"
    and "b \<le> V_length center - 1 - planetRadius g"
  shows "\<exists>m' s'. obb_corner_loop g center Ref_tmpA (Quaternion 0 0 0 1) i (Some m) s = Some (Some m', s')
           \<and> b \<le> m'"
  using assms(2,3)
proof (induction "8 - i" arbitrary: i m s)
  case 0
  then have "\<not> i < 8" by simp
  with 0 show ?case
    by (subst obb_corner_loop.simps) simp
next
  case (Suc n)
  then have lt: "i < 8" by simp
  have n: "n = 8 - Suc i" using Suc.hyps(2) by simp
  define loc where "loc = Vector3 ((if bit i 0 then 1 else - 1) * x3 (tmpA s))
      ((if bit i 1 then 1 else - 1) * y3 (tmpA s)) ((if bit i 2 then 1 else - 1) * z3 (tmpA s))"
  define corner where "corner = V_add (V_applyQuaternion loc (Quaternion 0 0 0 1)) center"
  define s1 where "s1 = assign Ref_tmpCorner corner s"
  define s2 where "s2 = st_normalize Ref_tmpA (st_copy Ref_tmpA Ref_tmpCorner s1)"
  define d where "d = V_length corner - planetRadius g"
  have "V_length loc = V_length (tmpA s)"
    unfolding loc_def by (cases "tmpA s") simp
  then have "V_length loc \<le> 1" using Suc.prems(1) by simp
  moreover have "V_length center - V_length loc \<le> V_length corner"
    unfolding corner_def V_apply_identity by (rule V_length_reverse_triangle)
  ultimately have d: "b \<le> d"
    using assms(4) by (simp add: d_def)
  have sdf: "signedDistanceToPlanet g Ref_tmpCorner s1 = Some (d, s2)"
    by (simp add: sdf_flat[OF assms(1)] s2_def d_def s1_def st_normalize_def st_copy_def)
  have tmpA2: "V_length (tmpA s2) \<le> 1"
    by (simp add: s2_def st_normalize_def st_copy_def V_length_normalize_le)
  have tmpA3: "V_length (tmpA (st_copy Ref_closestCorner Ref_tmpCorner s2)) \<le> 1"
    using tmpA2 by (simp add: st_copy_def)
  have step: "obb_corner_loop g center Ref_tmpA (Quaternion 0 0 0 1) i (Some m) s =
      (if d < m then obb_corner_loop g center Ref_tmpA (Quaternion 0 0 0 1) (Suc i) (Some d)
                       (st_copy Ref_closestCorner Ref_tmpCorner s2)
       else obb_corner_loop g center Ref_tmpA (Quaternion 0 0 0 1) (Suc i) (Some m) s2)"
    apply (subst obb_corner_loop.simps)
    apply (simp only: lt if_True Let_def deref.simps)
    apply (fold loc_def)
    apply (fold corner_def)
    apply (fold s1_def)
    apply (simp add: sdf)
    done
  show ?case
    unfolding step
    using Suc.hyps(1)[OF n tmpA3 d] Suc.hyps(1)[OF n tmpA2 Suc.prems(2)]
    by simp
qed

lemma flat_globals_flat: "flat_terrain flat_globals"
  by (simp add: flat_terrain_def flat_globals_def)

lemma flat_globals_radius: "planetRadius flat_globals = 350"
  by (simp add: flat_globals_def)

lemma V_length_axis_z: "V_length (Vector3 0 0 z) = \<bar>z\<bar>"
  by simp

lemma angular_fail: "angular_step resting_state = Some (Vector3 0 0 0, Quaternion 0 0 0 1)"
  by (simp add: angular_step_def resting_state_def Math_pow_def FIXED_STEP_def clamp_def MAX_ANG_def
        V_normalize_def Q_setFromAxisAngle_def Q_normalize_def)

lemma speed_fail: "speed_update 0 0 a 1 = Some 0"
  by (simp add: speed_update_def Math_pow_def clamp_def maxSpeed_of_def)

lemma linear_fail: "linear_step resting_state (Quaternion 0 0 0 1) = Some (Vector3 0 0 0, Vector3 1 0.5 (- 351.75))"
  by (simp add: linear_step_def resting_state_def forward_axis_def V_normalize_def speed_fail Let_def
         FIXED_STEP_def maxSpeed_of_def)

lemma gradient_sample_flat:
  assumes "flat_terrain g"
  shows "\<exists>d s'. gradient_sample g dx dy dz s = Some (d, s') \<and> closestCorner s' = closestCorner s
           \<and> obbResult_distance s' = obbResult_distance s"
  by (simp add: gradient_sample_def sdf_flat[OF assms] st_normalize_def st_copy_def st_add_def)

lemma first_corner:
  "obb_corner_loop flat_globals (Vector3 1 0.5 (- 351.75)) Ref_tmpA (Quaternion 0 0 0 1) 0 None
      (assign Ref_tmpA (Vector3 1.0 0.5 2.0) s)
   = obb_corner_loop flat_globals (Vector3 1 0.5 (- 351.75)) Ref_tmpA (Quaternion 0 0 0 1) (Suc 0) (Some 3.75)
      (s\<lparr>tmpCorner := Vector3 0 0 (- 353.75), tmpA := Vector3 0 0 (- 1),
         closestCorner := Vector3 0 0 (- 353.75)\<rparr>)"
  apply (subst obb_corner_loop.simps)
  apply (simp add: sdf_flat[OF flat_globals_flat] st_normalize_def st_copy_def V_normalize_def
       del: V_length.simps add: V_length_axis_z)
  apply (simp add: flat_globals_def)
  done

lemma center_far: "(1/2) \<le> V_length (Vector3 1 0.5 (- 351.75)) - 1 - planetRadius flat_globals"
proof -
  have "(351.75::real) \<le> sqrt (1 * 1 + 0.5 * 0.5 + (- 351.75) * (- 351.75))"
    by (rule real_le_rsqrt) (simp add: power2_eq_square)
  then show ?thesis
    by (simp add: flat_globals_def)
qed

lemma obb_fail:
  "\<exists>s'. obbSignedDistanceWithNormal flat_globals (Vector3 1 0.5 (- 351.75)) Ref_tmpA (Quaternion 0 0 0 1)
            (assign Ref_tmpA (Vector3 1.0 0.5 2.0) s) = Some s'
        \<and> 1/2 \<le> obbResult_distance s'"
proof -
  let ?s1 = "s\<lparr>tmpCorner := Vector3 0 0 (- 353.75), tmpA := Vector3 0 0 (- 1),
         closestCorner := Vector3 0 0 (- 353.75)\<rparr>"
  have "V_length (tmpA ?s1) \<le> 1" by simp
  from obb_corner_loop_flat[OF flat_globals_flat this _ center_far, of "3.75" "Suc 0"]
  obtain m' s2 where loop: "obb_corner_loop flat_globals (Vector3 1 0.5 (- 351.75)) Ref_tmpA (Quaternion 0 0 0 1)
       (Suc 0) (Some 3.75) ?s1 = Some (Some m', s2)" and m': "1/2 \<le> m'"
    by auto
  obtain a1 t1 where 1: "gradient_sample flat_globals (1/2) 0 0 (s2\<lparr>obbResult_distance := m'\<rparr>) = Some (a1, t1)"
      and d1: "obbResult_distance t1 = m'"
    using gradient_sample_flat[OF flat_globals_flat, of "1/2" 0 0 "s2\<lparr>obbResult_distance := m'\<rparr>"] by auto
  obtain a2 t2 where 2: "gradient_sample flat_globals (- (1/2)) 0 0 t1 = Some (a2, t2)"
      and d2: "obbResult_distance t2 = m'"
    using gradient_sample_flat[OF flat_globals_flat, of "- (1/2)" 0 0 t1] d1 by auto
  obtain a3 t3 where 3: "gradient_sample flat_globals 0 (1/2) 0 t2 = Some (a3, t3)"
      and d3: "obbResult_distance t3 = m'"
    using gradient_sample_flat[OF flat_globals_flat, of 0 "1/2" 0 t2] d2 by auto
  obtain a4 t4 where 4: "gradient_sample flat_globals 0 (- (1/2)) 0 t3 = Some (a4, t4)"
      and d4: "obbResult_distance t4 = m'"
    using gradient_sample_flat[OF flat_globals_flat, of 0 "- (1/2)" 0 t3] d3 by auto
  obtain a5 t5 where 5: "gradient_sample flat_globals 0 0 (1/2) t4 = Some (a5, t5)"
      and d5: "obbResult_distance t5 = m'"
    using gradient_sample_flat[OF flat_globals_flat, of 0 0 "1/2" t4] d4 by auto
  obtain a6 t6 where 6: "gradient_sample flat_globals 0 0 (- (1/2)) t5 = Some (a6, t6)"
      and d6: "obbResult_distance t6 = m'"
    using gradient_sample_flat[OF flat_globals_flat, of 0 0 "- (1/2)" t5] d5 by auto
  have g: "fbmParams flat_globals \<noteq> None" "planetRadius flat_globals \<noteq> 0"
    by (simp_all add: flat_globals_def)
  show ?thesis
    unfolding obbSignedDistanceWithNormal_def first_corner loop
    using g m' d6
    by (simp add: 1 2 3 4 5 6 Let_def)
qed

lemma collision_fail: "\<exists>s'. collision_step flat_globals s resting_state = Some (s', resting_state)"
proof -
  obtain s' where 1: "obbSignedDistanceWithNormal flat_globals (Vector3 1 0.5 (- 351.75)) Ref_tmpA
       (Quaternion 0 0 0 1) (assign Ref_tmpA (Vector3 1.0 0.5 2.0) s) = Some s'"
    and 2: "1/2 \<le> obbResult_distance s'"
    using obb_fail[of s] by auto
  have pr: "pos resting_state = Vector3 1 0.5 (- 351.75)" "rot resting_state = Quaternion 0 0 0 1"
    by (simp_all add: resting_state_def)
  have "collision_step flat_globals s resting_state = Some (s', resting_state)"
    unfolding collision_step_def pr 1 using 2 by (simp add: playerRadius_def)
  then show ?thesis ..
qed

text \<open>
  A finite-difference sample does not depend on the closest corner (nor on anything else in
  the store): the point it measures is \<open>(2 dx, 2 dy, 2 dz)\<close>.
\<close>

lemma gradient_sample_ignores_corner:
  "map_option fst (gradient_sample g dx dy dz s) = map_option fst (gradient_sample g dx dy dz s')"
  by (simp add: gradient_sample_def signedDistanceToPlanet_def st_add_def st_copy_def
        st_normalize_def Let_def split: option.splits)

lemma resting_state_fix:
  "resting_state\<lparr>pos := Vector3 1 0.5 (- 351.75), rot := Quaternion 0 0 0 1, velocity := Vector3 0 0 0,
      angularVelocity := Vector3 0 0 0\<rparr> = resting_state"
  by (simp add: resting_state_def)

text \<open>
  C5 (the code against the claim). The box of \<open>resting_state\<close> has a corner a quarter of a unit
  below the surface of \<open>flat_globals\<close>, so its least corner distance is below the player
  radius 0.5 and the claim asks for the push-out. The source passes \<open>_tmpA\<close> as the
  half-extents and \<open>signedDistanceToPlanet\<close> overwrites \<open>_tmpA\<close> with the direction of
  the corner it measures; from the second corner on, the "corners" are the centre plus or
  minus a unit vector. The distance reported is at least 0.5, the collision branch is not
  taken, and the tick returns the state unchanged, whatever the scratch vectors held.
\<close>

theorem C5_missed_collision:
  "\<forall>s. (\<exists>s'. updatePlayerPhysics flat_globals s resting_state = Some (s', resting_state))
     \<and> spec_corner_distance flat_globals s (spec_corner (pos resting_state) (Vector3 1 0.5 2) (rot resting_state) 4)
         = Some (- (1/4))"
proof (intro allI conjI)
  fix s
  show "\<exists>s'. updatePlayerPhysics flat_globals s resting_state = Some (s', resting_state)"
    unfolding updatePlayerPhysics_def angular_fail linear_fail option.case prod.case resting_state_fix
    by (rule collision_fail)
  have c: "spec_corner (pos resting_state) (Vector3 1 0.5 2) (rot resting_state) 4 = Vector3 0 0 (- 349.75)"
    by (simp add: spec_corner_def resting_state_def bit_iff_odd)
  show "spec_corner_distance flat_globals s (spec_corner (pos resting_state) (Vector3 1 0.5 2) (rot resting_state) 4)
         = Some (- (1/4))"
    unfolding c spec_corner_distance_def
    by (simp add: sdf_flat[OF flat_globals_flat] st_normalize_def st_copy_def flat_globals_radius
          del: V_length.simps add: V_length_axis_z)
qed

section \<open>Properties: start poses\<close>

lemma Fin_arith [simp]:
  "Fin a + Fin b = Fin (a + b)" "Fin a - Fin b = Fin (a - b)" "Fin a * Fin b = Fin (a * b)"
  "- Fin a = Fin (- a)"
  by (simp_all add: plus_jsnum_def minus_jsnum_def times_jsnum_def uminus_jsnum_def)

lemma NaN_arith [simp]:
  "NaN + a = NaN" "a + NaN = NaN" "NaN - a = NaN" "a - NaN = NaN" "NaN * a = NaN" "a * NaN = NaN"
  "NaN / a = NaN" "a / NaN = NaN" "- NaN = NaN"
  by (simp_all add: plus_jsnum_def minus_jsnum_def times_jsnum_def uminus_jsnum_def
        divide_jsnum_def split: jsnum.splits)

lemma NaN_cmp [simp]: "\<not> js_gt NaN a" "\<not> js_gt a NaN"
  by (simp_all add: js_gt_def split: jsnum.splits)

lemma NaN_fun [simp]: "js_Math_sqrt NaN = NaN" "js_Math_hypot NaN NaN NaN = NaN"
  by (simp_all add: js_Math_sqrt_def js_Math_hypot_def)

lemma lookRotation_NaN: "lookRotation (NaN, NaN, NaN) up = (NaN, NaN, NaN, NaN)"
  by (simp add: lookRotation_def Let_def)

lemma zero_div_zero: "Fin 0 / Fin 0 = NaN"
  by (simp add: divide_jsnum_def)

lemma min_max_Fin [simp]:
  "js_Math_max (Fin a) (Fin b) = Fin (max a b)" "js_Math_min (Fin a) (Fin b) = Fin (min a b)"
  by (auto simp: js_Math_max_def js_Math_min_def js_gt_def max_def min_def)

lemma floor_Fin [simp]: "js_Math_floor (Fin a) = Fin (of_int \<lfloor>a\<rfloor>)"
  by (simp add: js_Math_floor_def)

lemma hypot_Fin [simp]: "js_Math_hypot (Fin a) (Fin b) (Fin c) = Fin (sqrt (a * a + b * b + c * c))"
  by (simp add: js_Math_hypot_def)

lemma js_index_map:
  "0 \<le> k \<Longrightarrow> nat k < length pts \<Longrightarrow>
     js_index (map fin_point pts) (Fin (of_int k)) = Some (fin_point (pts ! nat k))"
  by simp

lemma getStartPose_fin:
  fixes pts :: "(real \<times> real \<times> real) list" and d :: real
  defines "n \<equiv> length pts"
  defines "idx \<equiv> min (max d 0) 1 * (real n - 1)"
  defines "k \<equiv> nat \<lfloor>idx\<rfloor>"
  defines "k1 \<equiv> min (Suc k) (n - 1)"
  assumes n1: "1 \<le> length pts"
    and p0: "pts ! k = (x0, y0, z0)" and p1: "pts ! k1 = (x1, y1, z1)"
  shows "getStartPoseFromCurve (map fin_point pts) (Fin d) =
     Inr \<lparr>position = (Fin (x0 + (x1 - x0) * (idx - real k)), Fin (y0 + (y1 - y0) * (idx - real k)),
                        Fin (z0 + (z1 - z0) * (idx - real k))),
          quaternion =
            lookRotation
              (Fin (x1 - x0) / Fin (sqrt ((x1 - x0) * (x1 - x0) + (y1 - y0) * (y1 - y0) + (z1 - z0) * (z1 - z0))),
               Fin (y1 - y0) / Fin (sqrt ((x1 - x0) * (x1 - x0) + (y1 - y0) * (y1 - y0) + (z1 - z0) * (z1 - z0))),
               Fin (z1 - z0) / Fin (sqrt ((x1 - x0) * (x1 - x0) + (y1 - y0) * (y1 - y0) + (z1 - z0) * (z1 - z0))))
              (Fin 0, Fin 1, Fin 0)\<rparr>"
proof -
  have n: "1 \<le> n" using n1 by (simp add: n_def)
  have t0: "0 \<le> min (max d 0) 1" and t1: "min (max d 0) 1 \<le> 1" by simp_all
  have idx0: "0 \<le> idx"
    unfolding idx_def using t0 n by (intro mult_nonneg_nonneg) simp_all
  have idx1: "idx \<le> real n - 1"
  proof -
    have "min (max d 0) 1 * (real n - 1) \<le> 1 * (real n - 1)"
      using t1 n by (intro mult_right_mono) simp_all
    then show ?thesis by (simp add: idx_def)
  qed
  have fl0: "0 \<le> \<lfloor>idx\<rfloor>" using idx0 by simp
  have "\<lfloor>idx\<rfloor> \<le> int n - 1" using idx1 by linarith
  then have kn: "k < n" using fl0 n by (simp add: k_def)
  have rk: "real_of_int \<lfloor>idx\<rfloor> = real k" using fl0 by (simp add: k_def)
  have k1n: "k1 < n" using n by (simp add: k1_def)
  have i0: "js_index (map fin_point pts) (Fin (real k)) = Some (Fin x0, Fin y0, Fin z0)"
    using kn p0 by (simp add: n_def)
  have "real k1 = min (real (Suc k)) (real (n - 1))"
    by (simp add: k1_def)
  then have m: "min (real k + 1) (real n - 1) = real k1"
    using n by (simp add: of_nat_diff add.commute)
  have i1: "js_index (map fin_point pts) (Fin (real k1)) = Some (Fin x1, Fin y1, Fin z1)"
    using k1n p1 by (simp add: n_def)
  have L: "length (map fin_point pts) = n" by (simp add: n_def)
  have T: "js_Math_min (js_Math_max (Fin d) (Fin 0)) (Fin 1) = Fin (min (max d 0) 1)" by simp
  have IDX: "Fin (min (max d 0) 1) * (Fin (real n) - Fin 1) = Fin idx" by (simp add: idx_def)
  have I0: "js_Math_floor (Fin idx) = Fin (real k)" by (simp add: rk)
  have I1: "js_Math_min (Fin (real k) + Fin 1) (Fin (real n) - Fin 1) = Fin (real k1)" by (simp add: m)
  show ?thesis
    unfolding getStartPoseFromCurve_def Let_def L T IDX I0 I1 i0 i1 option.case prod.case
    by simp
qed

lemma getStartPose_fin_position:
  assumes "1 \<le> length pts"
  shows "\<exists>q. getStartPoseFromCurve (map fin_point pts) (Fin d) =
           Inr \<lparr>position = fin_point (spec_curve_position pts d), quaternion = q\<rparr>"
proof -
  define n where "n = length pts"
  define idx where "idx = min (max d 0) 1 * (real n - 1)"
  define k where "k = nat \<lfloor>idx\<rfloor>"
  define k1 where "k1 = min (Suc k) (n - 1)"
  obtain x0 y0 z0 where p0: "pts ! k = (x0, y0, z0)" by (cases "pts ! k")
  obtain x1 y1 z1 where p1: "pts ! k1 = (x1, y1, z1)" by (cases "pts ! k1")
  note g = getStartPose_fin[OF assms, of d x0 y0 z0 x1 y1 z1,
      folded n_def, folded idx_def, folded k_def, folded k1_def, OF p0 p1]
  have n: "1 \<le> n" using assms by (simp add: n_def)
  have idx1: "idx \<le> real n - 1"
  proof -
    have "min (max d 0) 1 * (real n - 1) \<le> 1 * (real n - 1)"
      using n by (intro mult_right_mono) simp_all
    then show ?thesis by (simp add: idx_def)
  qed
  have idx0: "0 \<le> idx"
    unfolding idx_def using n by (intro mult_nonneg_nonneg) simp_all
  have s: "fin_point (spec_curve_position pts d) =
      (Fin (x0 + (x1 - x0) * (idx - real k)), Fin (y0 + (y1 - y0) * (idx - real k)),
       Fin (z0 + (z1 - z0) * (idx - real k)))"
  proof (cases "Suc k < n")
    case True
    then have "k1 = Suc k" by (simp add: k1_def)
    with True p0 p1 show ?thesis
      by (simp add: spec_curve_position_def Let_def n_def[symmetric] idx_def[symmetric] k_def[symmetric])
  next
    case False
    have "\<lfloor>idx\<rfloor> \<le> int n - 1" using idx1 by linarith
    then have "k \<le> n - 1" using n by (simp add: k_def)
    with False n have kk: "k = n - 1" by simp
    then have k1k: "k1 = n - 1" by (simp add: k1_def)
    have "real k \<le> idx" using idx0 by (simp add: k_def)
    with idx1 kk n have "idx - real k = 0" by (simp add: of_nat_diff)
    with False p0 p1 kk k1k show ?thesis
      by (simp add: spec_curve_position_def Let_def n_def[symmetric] idx_def[symmetric] k_def[symmetric])
  qed
  show ?thesis unfolding g s by blast
qed

lemma pose_last:
  assumes "2 \<le> length pts" and "1 \<le> d"
  shows "getStartPoseFromCurve (map fin_point pts) (Fin d)
           = Inr \<lparr>position = fin_point (last pts), quaternion = (NaN, NaN, NaN, NaN)\<rparr>"
proof -
  define n where "n = length pts"
  have n2: "2 \<le> n" using assms(1) by (simp add: n_def)
  have idx: "min (max d 0) 1 * (real n - 1) = real (n - 1)"
    using assms(2) n2 by (simp add: of_nat_diff)
  have k: "nat \<lfloor>real (n - 1)\<rfloor> = n - 1" by simp
  have k1: "min (Suc (n - 1)) (n - 1) = n - 1" by simp
  obtain a b c where p: "pts ! (n - 1) = (a, b, c)" by (cases "pts ! (n - 1)")
  have l: "last pts = (a, b, c)"
    using assms(1) p by (cases pts) (auto simp: last_conv_nth n_def)
  have n1: "1 \<le> length pts" using assms(1) by simp
  note g = getStartPose_fin[OF n1, of d a b c a b c, folded n_def, unfolded idx k k1, OF p p]
  show ?thesis
    unfolding g l by (simp add: zero_div_zero lookRotation_NaN)
qed


lemma startPose_at_last:
  assumes "2 \<le> length pts"
  shows "startPose_at (map fin_point pts) (length pts - 1) =
           getStartPoseFromCurve (map fin_point pts) (Fin 1)"
proof -
  have "max 1 (real (length pts) - 1) = real (length pts) - 1"
    using assms by simp
  moreover have "real (length pts - 1) = real (length pts) - 1"
    using assms by (simp add: of_nat_diff)
  moreover have "real (length pts) - 1 \<noteq> 0"
    using assms by simp
  ultimately show ?thesis
    by (simp add: startPose_at_def divide_jsnum_def)
qed

text \<open>
  C10. For a curve of at least two points with finite coordinates and any finite distance,
  \<open>getStartPoseFromCurve\<close> returns the position interpolated linearly at the distance clamped
  to \<open>[0, 1]\<close>. At distance exactly 1 both segment end points are the last point: the position
  is the last point, the tangent is \<open>(0, 0, 0)\<close>, its normalisation is \<open>0 / 0\<close>, and all four
  components of the quaternion are NaN. The worker's precomputation asks for distance
  \<open>(n - 1) / max(1, n - 1) = 1\<close> for the last point, so the last start pose has that
  quaternion.
\<close>

theorem C10_last_start_pose:
  assumes "2 \<le> length pts"
  shows "(\<exists>q. getStartPoseFromCurve (map fin_point pts) (Fin d) =
             Inr \<lparr>position = fin_point (spec_curve_position pts d), quaternion = q\<rparr>)
       \<and> getStartPoseFromCurve (map fin_point pts) (Fin 1) =
             Inr \<lparr>position = fin_point (last pts), quaternion = (NaN, NaN, NaN, NaN)\<rparr>
       \<and> last (precompute_startPositions (map fin_point pts)) =
             Inr \<lparr>position = fin_point (last pts), quaternion = (NaN, NaN, NaN, NaN)\<rparr>"
proof (intro conjI)
  have n1: "1 \<le> length pts" using assms by simp
  show "\<exists>q. getStartPoseFromCurve (map fin_point pts) (Fin d) =
             Inr \<lparr>position = fin_point (spec_curve_position pts d), quaternion = q\<rparr>"
    by (rule getStartPose_fin_position[OF n1])
  show l: "getStartPoseFromCurve (map fin_point pts) (Fin 1) =
             Inr \<lparr>position = fin_point (last pts), quaternion = (NaN, NaN, NaN, NaN)\<rparr>"
    by (rule pose_last[OF assms]) simp
  have ne: "[0 ..< length pts] \<noteq> []" using assms by auto
  have "last [0 ..< length pts] = length pts - 1"
    using ne by (simp add: last_upt)
  then have "last (precompute_startPositions (map fin_point pts)) =
      startPose_at (map fin_point pts) (length pts - 1)"
    unfolding precompute_startPositions_def length_map
    by (simp add: last_map[OF ne])
  then show "last (precompute_startPositions (map fin_point pts)) =
             Inr \<lparr>position = fin_point (last pts), quaternion = (NaN, NaN, NaN, NaN)\<rparr>"
    unfolding startPose_at_last[OF assms] l .
qed

theorem C10_last_start_pose_witness:
  "2 \<le> length [(0, 0, 0), (10, 0, 0 :: real)]
   \<and> getStartPoseFromCurve [(Fin 0, Fin 0, Fin 0), (Fin 10, Fin 0, Fin 0)] (Fin 1) =
       Inr \<lparr>position = (Fin 10, Fin 0, Fin 0), quaternion = (NaN, NaN, NaN, NaN)\<rparr>
   \<and> (\<exists>q. getStartPoseFromCurve [(Fin 0, Fin 0, Fin 0), (Fin 10, Fin 0, Fin 0)] (Fin 0.25) =
       Inr \<lparr>position = (Fin 2.5, Fin 0, Fin 0), quaternion = q\<rparr>)"
proof -
  have h: "2 \<le> length [(0, 0, 0), (10, 0, 0 :: real)]" by simp
  have s: "spec_curve_position [(0, 0, 0), (10, 0, 0)] (1 / 4) = (5 / 2, 0, 0)"
    by (simp add: spec_curve_position_def)
  show ?thesis
    using h C10_last_start_pose [OF h, of "0.25"] by (simp add: s)
qed

section \<open>Properties: the engine's timers\<close>

lemma stop_idem: "stop (stop st) = stop st"
  by (simp add: stop_def clearInterval_def split: option.splits)

lemma inv_init: "engine_inv (engine_init e)"
  by (simp add: engine_inv_def engine_init_def)

lemma map_of_filter_neq:
  "i \<noteq> j \<Longrightarrow> map_of (filter (\<lambda>t. fst t \<noteq> j) xs) i = map_of xs i"
  by (induction xs) auto

lemma map_of_filter_eq: "map_of (filter (\<lambda>t. fst t \<noteq> j) xs) j = None"
  by (induction xs) auto

lemma map_of_fresh: "list_all (\<lambda>t. fst t < n) xs \<Longrightarrow> map_of xs (n::nat) = None"
  by (induction xs) (simp_all add: less_imp_neq[THEN not_sym])

lemma fresh_notin: "list_all (\<lambda>t. fst t < n) xs \<Longrightarrow> (n::nat) \<notin> fst ` set xs"
  by (induction xs) auto

lemma list_all_mono_less: "list_all (\<lambda>t. fst t < n) xs \<Longrightarrow> list_all (\<lambda>t. fst t < Suc n) xs"
  by (induction xs) auto

lemma list_all_filter: "list_all P xs \<Longrightarrow> list_all P (filter Q xs)"
  by (induction xs) auto

lemma distinct_filter_fst: "distinct (map fst xs) \<Longrightarrow> distinct (map fst (filter Q xs))"
  by (induction xs) auto

lemma tick_only_interval:
  "list_all (\<lambda>t. snd t = TickTimer \<longrightarrow> h = Some (fst t)) xs \<Longrightarrow>
     list_all (\<lambda>t. snd t \<noteq> TickTimer) (filter (\<lambda>t. fst t \<noteq> the h) xs) \<or> h = None"
  by (induction xs) auto

lemma no_tick_if_no_interval:
  "list_all (\<lambda>t. snd t = TickTimer \<longrightarrow> (None :: nat option) = Some (fst t)) xs \<Longrightarrow>
     list_all (\<lambda>t. snd t \<noteq> TickTimer) xs"
  by (induction xs) auto

lemma no_tick_after_stop:
  assumes "engine_inv st"
  shows "no_tick_timer (stop st)"
proof (cases "interval st")
  case None
  with assms show ?thesis
    by (simp add: no_tick_timer_def stop_def clearInterval_def engine_inv_def no_tick_if_no_interval)
next
  case (Some i)
  with assms tick_only_interval[of "interval st" "timers st"] show ?thesis
    by (simp add: no_tick_timer_def stop_def clearInterval_def engine_inv_def)
qed

lemma no_tick_step:
  assumes "no_tick_timer st" and "ev \<noteq> Receive Start"
  shows "no_tick_timer (fst (engine_step ops ev st)) \<and> Tick_msg \<notin> set (snd (engine_step ops ev st))"
proof (cases ev)
  case (Receive cmd)
  with assms show ?thesis
    by (cases cmd)
       (auto simp: engine_step_def engine_receive_def no_tick_timer_def stop_def clearInterval_def
          init_def startFixedUpdateLoop_def setInterval_def list_all_filter Let_def
          split: option.splits prod.splits)
next
  case (Fires i)
  have "map_of (timers st) i \<noteq> Some TickTimer"
    using assms(1) unfolding no_tick_timer_def list_all_iff
    by (metis map_of_SomeD snd_conv)
  with assms Fires show ?thesis
    by (auto simp: engine_step_def updatePhysics_def no_tick_timer_def Let_def
          split: option.splits timer_kind.splits)
qed

lemma no_tick_run:
  assumes "no_tick_timer st" and "Receive Start \<notin> set evs"
  shows "Tick_msg \<notin> set (snd (engine_run ops evs st))"
  using assms
proof (induction evs arbitrary: st)
  case Nil
  then show ?case by simp
next
  case (Cons ev evs)
  from Cons.prems have ne: "ev \<noteq> Receive Start" and rest: "Receive Start \<notin> set evs" by auto
  from no_tick_step[OF Cons.prems(1) ne, of ops]
  have a: "no_tick_timer (fst (engine_step ops ev st))"
    and b: "Tick_msg \<notin> set (snd (engine_step ops ev st))" by auto
  from Cons.IH[OF a rest] b show ?case
    by (auto split: prod.splits)
qed

lemma map_of_append_fresh:
  "map_of xs (n::nat) = None \<Longrightarrow> map_of (xs @ [(n, k)]) i = (if i = n then Some k else map_of xs i)"
  by (auto simp: map_add_def split: option.splits)

lemma tick_interval_filter:
  "list_all (\<lambda>t. snd t = TickTimer \<longrightarrow> h = Some (fst t)) xs \<Longrightarrow>
   list_all (\<lambda>t. snd t = TickTimer \<longrightarrow> h = Some (fst t)) (filter Q xs)"
  by (rule list_all_filter)

lemma inv_start:
  assumes "engine_inv st"
  shows "engine_inv (start st)"
proof (cases "running st")
  case True
  with assms show ?thesis by (simp add: start_def)
next
  case False
  with assms have none: "interval st = None" by (simp add: engine_inv_def)
  from assms have fr: "list_all (\<lambda>t. fst t < next_timer st) (timers st)"
    and di: "distinct (map fst (timers st))"
    and ti: "list_all (\<lambda>t. snd t = TickTimer \<longrightarrow> interval st = Some (fst t)) (timers st)"
    and ph: "(case physicsInterval st of None \<Rightarrow> True | Some i \<Rightarrow> map_of (timers st) i = Some PhysicsTimer)"
    by (simp_all add: engine_inv_def)
  have nt: "list_all (\<lambda>t. snd t \<noteq> TickTimer) (timers st)"
    using ti none by (simp add: no_tick_if_no_interval)
  have mf: "map_of (timers st) (next_timer st) = None"
    by (rule map_of_fresh[OF fr])
  have t2: "list_all (\<lambda>t. snd t = TickTimer \<longrightarrow> Some (next_timer st) = Some (fst t)) (timers st)"
    using nt by (induction "timers st") (auto simp: list_all_iff)
  show ?thesis
    using False fr di ph mf t2 fresh_notin[OF fr]
    by (auto simp: start_def setInterval_def engine_inv_def list_all_mono_less map_of_append_fresh
          simp del: map_of_append split: option.splits)
qed

lemma inv_stop:
  assumes "engine_inv st"
  shows "engine_inv (stop st)"
proof -
  from assms have fr: "list_all (\<lambda>t. fst t < next_timer st) (timers st)"
    and di: "distinct (map fst (timers st))"
    and ti: "list_all (\<lambda>t. snd t = TickTimer \<longrightarrow> interval st = Some (fst t)) (timers st)"
    and ph: "(case physicsInterval st of None \<Rightarrow> True | Some i \<Rightarrow> map_of (timers st) i = Some PhysicsTimer)"
    and it: "(case interval st of None \<Rightarrow> True | Some i \<Rightarrow> map_of (timers st) i = Some TickTimer)"
    by (simp_all add: engine_inv_def)
  have nt: "no_tick_timer (stop st)" by (rule no_tick_after_stop[OF assms])
  then have t2: "list_all (\<lambda>t. snd t = TickTimer \<longrightarrow> (None :: nat option) = Some (fst t)) (timers (stop st))"
    by (simp add: no_tick_timer_def list_all_iff)
  show ?thesis
  proof (cases "interval st")
    case None
    with assms show ?thesis
      by (auto simp: stop_def clearInterval_def engine_inv_def split: option.splits)
  next
    case (Some j)
    have "map_of (filter (\<lambda>t. fst t \<noteq> j) (timers st)) i = Some PhysicsTimer"
      if "physicsInterval st = Some i" for i
    proof -
      from that ph have p: "map_of (timers st) i = Some PhysicsTimer" by simp
      from Some it have "map_of (timers st) j = Some TickTimer" by simp
      with p have "i \<noteq> j" by auto
      then show ?thesis using p by (simp add: map_of_filter_neq)
    qed
    then show ?thesis
      using Some fr di t2
      by (auto simp: stop_def clearInterval_def engine_inv_def list_all_filter distinct_filter_fst
            split: option.splits)
  qed
qed

lemma inv_startFixedUpdateLoop:
  assumes "engine_inv st"
  shows "engine_inv (startFixedUpdateLoop st)"
proof -
  from assms have fr: "list_all (\<lambda>t. fst t < next_timer st) (timers st)"
    and di: "distinct (map fst (timers st))"
    and ti: "list_all (\<lambda>t. snd t = TickTimer \<longrightarrow> interval st = Some (fst t)) (timers st)"
    and ph: "(case physicsInterval st of None \<Rightarrow> True | Some i \<Rightarrow> map_of (timers st) i = Some PhysicsTimer)"
    and it: "(case interval st of None \<Rightarrow> True | Some i \<Rightarrow> map_of (timers st) i = Some TickTimer)"
    and ru: "running st = (interval st \<noteq> None)"
    by (simp_all add: engine_inv_def)
  define ts where "ts = (case physicsInterval st of None \<Rightarrow> timers st
                         | Some i \<Rightarrow> filter (\<lambda>t. fst t \<noteq> i) (timers st))"
  have fr': "list_all (\<lambda>t. fst t < next_timer st) ts"
    using fr by (simp add: ts_def list_all_filter split: option.splits)
  have di': "distinct (map fst ts)"
    using di by (simp add: ts_def distinct_filter_fst split: option.splits)
  have ti': "list_all (\<lambda>t. snd t = TickTimer \<longrightarrow> interval st = Some (fst t)) ts"
    using ti by (simp add: ts_def list_all_filter split: option.splits)
  have it': "map_of ts j = Some TickTimer" if "interval st = Some j" for j
  proof -
    from that it have p: "map_of (timers st) j = Some TickTimer" by simp
    show ?thesis
    proof (cases "physicsInterval st")
      case None
      with p show ?thesis by (simp add: ts_def)
    next
      case (Some i)
      with ph have "map_of (timers st) i = Some PhysicsTimer" by simp
      with p have "j \<noteq> i" by auto
      with p Some show ?thesis by (simp add: ts_def map_of_filter_neq)
    qed
  qed
  have mf: "map_of ts (next_timer st) = None" by (rule map_of_fresh[OF fr'])
  have st': "startFixedUpdateLoop st =
      st\<lparr>timers := ts @ [(next_timer st, PhysicsTimer)], next_timer := Suc (next_timer st),
         physicsInterval := Some (next_timer st)\<rparr>"
    by (auto simp: startFixedUpdateLoop_def setInterval_def clearInterval_def ts_def Let_def
          split: option.splits)
  have lt: "j < next_timer st" if "interval st = Some j" for j
    using it'[OF that] fr' by (auto simp: list_all_iff dest!: map_of_SomeD)
  show ?thesis
    unfolding st'
    using fr' di' ti' it' mf ru fresh_notin[OF fr'] lt
    by (auto simp: engine_inv_def list_all_mono_less map_of_append_fresh simp del: map_of_append
          split: option.splits)
qed

lemma inv_step:
  assumes "engine_inv st"
  shows "engine_inv (fst (engine_step ops ev st))"
proof (cases ev)
  case (Receive cmd)
  have keep: "engine_inv (st\<lparr>engine_players := ps, env := e\<rparr>)" for ps e
    using assms by (auto simp: engine_inv_def split: option.splits)
  have keep': "engine_inv (st\<lparr>engine_players := ps\<rparr>)" for ps
    using assms by (auto simp: engine_inv_def split: option.splits)
  have keep'': "engine_inv (st\<lparr>env := e\<rparr>)" for e
    using assms by (auto simp: engine_inv_def split: option.splits)
  show ?thesis
    using assms Receive keep keep' inv_start[OF assms] inv_stop[OF assms]
      inv_startFixedUpdateLoop[OF keep'']
    by (cases cmd) (auto simp: engine_step_def engine_receive_def init_def split: option.splits prod.splits)
next
  case (Fires i)
  with assms show ?thesis
    by (auto simp: engine_step_def updatePhysics_def engine_inv_def Let_def
          split: option.splits timer_kind.splits)
qed

lemma engine_run_Cons_fst:
  "fst (engine_run ops (ev # evs) st) = fst (engine_run ops evs (fst (engine_step ops ev st)))"
  by (simp split: prod.splits)

lemma inv_run:
  assumes "engine_inv st"
  shows "engine_inv (fst (engine_run ops evs st))"
  using assms
proof (induction evs arbitrary: st)
  case Nil
  then show ?case by simp
next
  case (Cons ev evs)
  from Cons.IH[OF inv_step[OF Cons.prems, of ops ev]] show ?case
    unfolding engine_run_Cons_fst .
qed

lemma stop_keeps_physics:
  assumes "engine_inv st" and "physicsInterval st = Some i"
  shows "\<exists>st' snap. engine_step ops (Fires i) (stop st) = (st', [StateUpdate_msg snap])"
proof -
  from inv_stop[OF assms(1)] have "engine_inv (stop st)" .
  moreover have "physicsInterval (stop st) = Some i"
    using assms(2) by (simp add: stop_def clearInterval_def split: option.splits)
  ultimately have "map_of (timers (stop st)) i = Some PhysicsTimer"
    by (simp add: engine_inv_def)
  then show ?thesis
    by (simp add: engine_step_def updatePhysics_def Let_def)
qed

text \<open>
  C3 (as amended). In every state the engine reaches from its initial state, \<open>stop\<close> is
  idempotent, it is what the \<open>stop\<close> command runs, and after it no \<open>tick\<close> message is posted
  by any sequence of commands and timer firings without a \<open>start\<close> command. \<open>stop\<close> does not
  disarm the fixed update loop: if \<open>init\<close> has armed it, its next firing after the \<open>stop\<close>
  still posts a \<open>stateUpdate\<close> snapshot.
\<close>

theorem C3_stop_disarms_tick_only:
  assumes "st = fst (engine_run ops pre (engine_init e))" and "Receive Start \<notin> set post"
  shows "stop (stop st) = stop st
       \<and> fst (engine_step ops (Receive Stop) st) = stop st
       \<and> Tick_msg \<notin> set (snd (engine_run ops post (stop st)))
       \<and> (case physicsInterval st of
             None \<Rightarrow> True
           | Some i \<Rightarrow> (\<exists>st' snap. engine_step ops (Fires i) (stop st) = (st', [StateUpdate_msg snap])))"
proof -
  have inv: "engine_inv st"
    unfolding assms(1) by (rule inv_run[OF inv_init])
  have "Tick_msg \<notin> set (snd (engine_run ops post (stop st)))"
    by (rule no_tick_run[OF no_tick_after_stop[OF inv] assms(2)])
  moreover have "fst (engine_step ops (Receive Stop) st) = stop st"
    by (simp add: engine_step_def engine_receive_def)
  moreover have "case physicsInterval st of
             None \<Rightarrow> True
           | Some i \<Rightarrow> (\<exists>st' snap. engine_step ops (Fires i) (stop st) = (st', [StateUpdate_msg snap]))"
    using stop_keeps_physics[OF inv, of _ ops] by (auto split: option.splits)
  ultimately show ?thesis
    by (simp add: stop_idem)
qed

lemma unit_run_init_start:
  "fst (engine_run unit_ops [Receive (Init None), Receive Start] (engine_init ())) =
     \<lparr>running = True, interval = Some 1, physicsInterval = Some 0,
      timers = [(0, PhysicsTimer), (1, TickTimer)], next_timer = 2, engine_players = [], env = ()\<rparr>"
  by (simp add: engine_step_def engine_receive_def init_def startFixedUpdateLoop_def setInterval_def
        start_def engine_init_def Let_def numeral_2_eq_2)

theorem C3_stop_disarms_tick_only_witness:
  "Receive Start \<notin> set [Fires 1, Fires 0 :: unit engine_event]
   \<and> Tick_msg \<notin> set (snd (engine_run unit_ops [Fires 1, Fires 0]
        (stop (fst (engine_run unit_ops [Receive (Init None), Receive Start] (engine_init ())))))) 
   \<and> (\<exists>st' snap. engine_step unit_ops (Fires 0)
         (stop (fst (engine_run unit_ops [Receive (Init None), Receive Start] (engine_init ()))))
          = (st', [StateUpdate_msg snap]))"
proof -
  have h: "Receive Start \<notin> set [Fires 1, Fires 0 :: unit engine_event]" by simp
  note t = C3_stop_disarms_tick_only [OF refl h, of unit_ops "[Receive (Init None), Receive Start]" "()"]
  show ?thesis
    using h t unfolding unit_run_init_start by simp
qed

text \<open>
  C3 as stated fails: after \<open>init\<close> and \<open>stop\<close> the firing of the update interval posts a
  snapshot.
\<close>

theorem C3_snapshot_after_stop_counterexample:
  "snd (engine_run unit_ops [Fires 0]
         (fst (engine_run unit_ops [Receive (Init None), Receive Stop] (engine_init ()))))
     = [StateUpdate_msg []]"
  by (simp add: engine_step_def engine_receive_def init_def startFixedUpdateLoop_def setInterval_def
        stop_def clearInterval_def engine_init_def updatePhysics_def Let_def)

section \<open>Properties: the room lifecycle\<close>

lemmas srv_defs = server_step_def on_message_def on_join_def getOrCreateOpenRoom_def is_open_def
  MAX_PLAYERS_PER_ROOM_def postMessage_def new_player_def getRoom_def set_room_def on_close_def
  cleanupRoom_def on_setReady_def on_input_def on_removed_def on_config_def on_finish_def
  on_worker_message_def sendToWorker_def on_worker_exit_def startPregameCountdown_def
  startRaceCountdown_def startRace_def endRace_def pregame_tick_def race_tick_def
  assignStartPositions_def rank_of_def truthy_time_def server_init_def Let_def

lemma getRoom_set_room [simp]:
  "getRoom (set_room r rm st) r' = (if r' = r then Some rm else getRoom st r')"
  by (simp add: getRoom_def set_room_def update_conv')

lemma room_phase_set_room [simp]:
  "room_phase (set_room r rm st) r' = (if r' = r then Some (phase rm) else room_phase st r')"
  by (simp add: room_phase_def)

lemma setReady_keeps_phase:
  "on_setReady p r b st = Inr st' \<Longrightarrow> room_phase st' r' = room_phase st r'"
  by (auto simp: on_setReady_def room_phase_def split: option.splits)

lemma pregame_tick_phase:
  assumes "getRoom st r = Some rm" and "pregameTimer rm = Some t"
  shows "map_option (\<lambda>x. (phase x, pregameTimer x, raceTimer x)) (getRoom (pregame_tick r st) r) =
           (if t \<le> 1 then Some (Racecountdown, None, Some 5) else Some (phase rm, Some (t - 1), raceTimer rm))"
  using assms
  by (simp add: pregame_tick_def startRaceCountdown_def assignStartPositions_def)

lemma race_tick_phase:
  assumes "getRoom st r = Some rm" and "raceTimer rm = Some t"
  shows "map_option (\<lambda>x. (phase x, raceTimer x, raceStartAt x)) (getRoom (race_tick r now st) r) =
           (if t \<le> 1 then Some (Racing, None, Some now) else Some (phase rm, Some (t - 1), raceStartAt rm))"
  using assms
  by (simp add: race_tick_def startRace_def)

lemma startNow_phase:
  assumes "map_of (sockets st) p = Some (Some r)" and "getRoom st r = Some rm"
  shows "\<exists>st'. on_message p now StartNow st = Inr st'
           \<and> map_option (\<lambda>x. (phase x, pregameTimer x)) (getRoom st' r) =
               (if allowForceStart st \<and> phase rm = Lobby then Some (Pregame, Some 3)
                else Some (phase rm, pregameTimer rm))"
  using assms
  by (simp add: on_message_def startPregameCountdown_def)

lemma finish_phase:
  assumes "getRoom st r = Some rm" and "map_of (players rm) p = Some pl" and "now \<noteq> 0"
    and "distinct (map fst (players rm))"
    and "list_all (\<lambda>e. fst e = p \<or> truthy_time (finishedAt (snd e))) (players rm)"
  shows "room_phase (on_finish p r now st) r = Some Finished"
proof -
  have "list_all (\<lambda>e. truthy_time (finishedAt (snd e))) (AList.update p (pl\<lparr>finishedAt := Some now, score := score pl + 1\<rparr>) ps)"
    if "list_all (\<lambda>e. fst e = p \<or> truthy_time (finishedAt (snd e))) ps" "distinct (map fst ps)" for ps
    using that assms(3)
  proof (induction ps)
    case Nil
    then show ?case by (simp add: truthy_time_def)
  next
    case (Cons e ps)
    show ?case
    proof (cases "fst e = p")
      case True
      with Cons.prems have "list_all (\<lambda>e. truthy_time (finishedAt (snd e))) ps"
        unfolding list_all_iff by (force simp: image_iff)
      with True Cons.prems(3) show ?thesis
        by (cases e) (simp add: truthy_time_def)
    next
      case False
      with Cons show ?thesis by (cases e) auto
    qed
  qed
  from this[OF assms(5,4)] assms(1,2) show ?thesis
    by (simp add: on_finish_def endRace_def Let_def)
qed

lemma lobby_state_run:
  "server_run [Connection, Message 0 5 (Join None)] (server_init True) = Inr lobby_state"
  by (simp add: srv_defs lobby_state_def)

text \<open>
  C2 (as amended). For a room that exists: a \<open>setReady\<close> message never changes its phase; a
  \<open>startNow\<close> message from a connection in the room moves it from \<open>lobby\<close> to \<open>pregame\<close> with a
  countdown of 3 when \<open>ALLOW_FORCE_START\<close> is set, and changes neither phase nor countdown
  otherwise; a firing of the pregame countdown decrements it and, when it reaches 0, moves the
  room to \<open>racecountdown\<close> with a countdown of 5; a firing of that countdown decrements it and,
  when it reaches 0, moves the room to \<open>racing\<close> and records the start time; and a \<open>finish\<close>
  message after which every player of the roster has a finish time moves the room to
  \<open>finished\<close>.
\<close>

theorem C2_phase_chain:
  assumes "getRoom st r = Some rm"
  shows "(\<forall>b st'. on_setReady p r b st = Inr st' \<longrightarrow> room_phase st' r = Some (phase rm))
       \<and> (map_of (sockets st) p = Some (Some r) \<longrightarrow>
            (\<exists>st'. on_message p now StartNow st = Inr st'
               \<and> map_option (\<lambda>x. (phase x, pregameTimer x)) (getRoom st' r) =
                   (if allowForceStart st \<and> phase rm = Lobby then Some (Pregame, Some 3)
                    else Some (phase rm, pregameTimer rm))))
       \<and> (\<forall>t. pregameTimer rm = Some t \<longrightarrow>
            map_option (\<lambda>x. (phase x, pregameTimer x, raceTimer x)) (getRoom (pregame_tick r st) r) =
              (if t \<le> 1 then Some (Racecountdown, None, Some 5)
               else Some (phase rm, Some (t - 1), raceTimer rm)))
       \<and> (\<forall>t. raceTimer rm = Some t \<longrightarrow>
            map_option (\<lambda>x. (phase x, raceTimer x, raceStartAt x)) (getRoom (race_tick r now st) r) =
              (if t \<le> 1 then Some (Racing, None, Some now)
               else Some (phase rm, Some (t - 1), raceStartAt rm)))
       \<and> (\<forall>pl. map_of (players rm) p = Some pl \<and> now \<noteq> 0 \<and> distinct (map fst (players rm))
              \<and> list_all (\<lambda>e. fst e = p \<or> truthy_time (finishedAt (snd e))) (players rm) \<longrightarrow>
            room_phase (on_finish p r now st) r = Some Finished)"
proof (intro conjI allI impI)
  fix b st'
  assume "on_setReady p r b st = Inr st'"
  from setReady_keeps_phase[OF this, of r] assms
  show "room_phase st' r = Some (phase rm)"
    by (simp add: room_phase_def)
next
  assume "map_of (sockets st) p = Some (Some r)"
  from startNow_phase[OF this assms]
  show "\<exists>st'. on_message p now StartNow st = Inr st'
               \<and> map_option (\<lambda>x. (phase x, pregameTimer x)) (getRoom st' r) =
                   (if allowForceStart st \<and> phase rm = Lobby then Some (Pregame, Some 3)
                    else Some (phase rm, pregameTimer rm))" .
next
  fix t
  assume "pregameTimer rm = Some t"
  from pregame_tick_phase[OF assms this]
  show "map_option (\<lambda>x. (phase x, pregameTimer x, raceTimer x)) (getRoom (pregame_tick r st) r) =
              (if t \<le> 1 then Some (Racecountdown, None, Some 5)
               else Some (phase rm, Some (t - 1), raceTimer rm))" .
next
  fix t
  assume "raceTimer rm = Some t"
  from race_tick_phase[OF assms this]
  show "map_option (\<lambda>x. (phase x, raceTimer x, raceStartAt x)) (getRoom (race_tick r now st) r) =
              (if t \<le> 1 then Some (Racing, None, Some now)
               else Some (phase rm, Some (t - 1), raceStartAt rm))" .
next
  fix pl
  assume "map_of (players rm) p = Some pl \<and> now \<noteq> 0 \<and> distinct (map fst (players rm))
              \<and> list_all (\<lambda>e. fst e = p \<or> truthy_time (finishedAt (snd e))) (players rm)"
  then show "room_phase (on_finish p r now st) r = Some Finished"
    using finish_phase[OF assms, of p pl now] by simp
qed

lemma lobby_room:
  "getRoom lobby_state 1 = Some \<lparr>players = [(0, new_player 5)], phase = Lobby, pregameTimer = None,
                     raceTimer = None, raceStartAt = None, physicsWorker = Some 1\<rparr>"
  by (simp add: lobby_state_def getRoom_def)

lemma timers_room:
  "getRoom (with_timers ph pt rt lobby_state) 1 =
     Some \<lparr>players = [(0, new_player 5)], phase = ph, pregameTimer = pt,
                     raceTimer = rt, raceStartAt = None, physicsWorker = Some 1\<rparr>"
  by (simp add: lobby_state_def getRoom_def with_timers_def)

theorem C2_phase_chain_witness:
  "(\<exists>st'. on_message 0 6 StartNow lobby_state = Inr st'
       \<and> map_option (\<lambda>x. (phase x, pregameTimer x)) (getRoom st' 1) = Some (Pregame, Some 3))
   \<and> map_option (\<lambda>x. (phase x, pregameTimer x, raceTimer x))
        (getRoom (pregame_tick 1 (with_timers Pregame (Some 1) None lobby_state)) 1)
       = Some (Racecountdown, None, Some 5)
   \<and> map_option (\<lambda>x. (phase x, raceTimer x, raceStartAt x))
        (getRoom (race_tick 1 30 (with_timers Racecountdown None (Some 1) lobby_state)) 1)
       = Some (Racing, None, Some 30)
   \<and> room_phase (on_finish 0 1 40 (with_timers Racing None None lobby_state)) 1 = Some Finished
   \<and> room_phase (on_finish 0 1 40 lobby_state) 1 = Some Finished"
  using C2_phase_chain [OF lobby_room, where p = 0 and now = 6]
    C2_phase_chain [OF timers_room [of Pregame "Some 1" None], where p = 0 and now = 0]
    C2_phase_chain [OF timers_room [of Racecountdown None "Some 1"], where p = 0 and now = 30]
    C2_phase_chain [OF timers_room [of Racing None None], where p = 0 and now = 40]
    C2_phase_chain [OF lobby_room, where p = 0 and now = 40]
  by (simp add: lobby_state_def new_player_def truthy_time_def)

text \<open>
  C2 as stated fails: the only player of a room sets ready, so every present player is ready,
  and the room stays in \<open>lobby\<close> with no countdown armed.
\<close>

theorem C2_all_ready_stays_in_lobby_counterexample:
  "server_run [Connection, Message 0 5 (Join None), Message 0 6 (SetReady (Some True))]
     (server_init True :: unit server)
   = Inr \<lparr>rooms = [(1, \<lparr>players = [(0, \<lparr>joinedAt = 5, ready = True, score = 0, finishedAt = None,
                                          start_position = None\<rparr>)],
                        phase = Lobby, pregameTimer = None, raceTimer = None, raceStartAt = None,
                        physicsWorker = Some 1\<rparr>)],
          workers = [(1, \<lparr>posted = [AddPlayer (Some 0) None], workerReady = False, pendingMessages = [],
                           once_armed = True, terminated = False, creator = 0, creator_data = None\<rparr>)],
          sockets = [(0, Some 1)], fresh = 2, allowForceStart = True\<rparr>"
  by (simp add: srv_defs)

text \<open>
  C1 (the code against the claim). Two connections join the same room; when the first one
  closes, \<open>cleanupRoom\<close> stops and terminates the worker and deletes the room although player 1
  is still in its roster. And when the only player of a room leaves with a \<open>removed\<close> message,
  the empty room stays, with its worker; when that connection then closes, the room is
  deleted but its worker is neither stopped nor terminated.
\<close>

theorem C1_close_destroys_occupied_room:
  "server_run [Connection, Connection, Message 0 5 (Join None), Message 1 6 (Join None)]
     (server_init False :: unit server)
   = Inr \<lparr>rooms = [(2, \<lparr>players = [(0, new_player 5), (1, new_player 6)], phase = Lobby,
                        pregameTimer = None, raceTimer = None, raceStartAt = None,
                        physicsWorker = Some 2\<rparr>)],
          workers = [(2, \<lparr>posted = [AddPlayer (Some 0) None, AddPlayer (Some 1) None],
                           workerReady = False, pendingMessages = [], once_armed = True,
                           terminated = False, creator = 0, creator_data = None\<rparr>)],
          sockets = [(0, Some 2), (1, Some 2)], fresh = 3, allowForceStart = False\<rparr>
   \<and> server_run [Connection, Connection, Message 0 5 (Join None), Message 1 6 (Join None), Close 0]
     (server_init False :: unit server)
   = Inr \<lparr>rooms = [],
          workers = [(2, \<lparr>posted = [AddPlayer (Some 0) None, AddPlayer (Some 1) None,
                                     RemovePlayer (Some 0), Stop],
                           workerReady = False, pendingMessages = [], once_armed = True,
                           terminated = True, creator = 0, creator_data = None\<rparr>)],
          sockets = [(1, Some 2)], fresh = 3, allowForceStart = False\<rparr>
   \<and> server_run [Connection, Message 0 5 (Join None), Message 0 6 Removed]
     (server_init False :: unit server)
   = Inr \<lparr>rooms = [(1, \<lparr>players = [], phase = Lobby, pregameTimer = None, raceTimer = None,
                        raceStartAt = None, physicsWorker = Some 1\<rparr>)],
          workers = [(1, \<lparr>posted = [AddPlayer (Some 0) None, RemovePlayer (Some 0)],
                           workerReady = False, pendingMessages = [], once_armed = True,
                           terminated = False, creator = 0, creator_data = None\<rparr>)],
          sockets = [(0, Some 1)], fresh = 2, allowForceStart = False\<rparr>
   \<and> server_run [Connection, Message 0 5 (Join None), Message 0 6 Removed, Close 0]
     (server_init False :: unit server)
   = Inr \<lparr>rooms = [],
          workers = [(1, \<lparr>posted = [AddPlayer (Some 0) None, RemovePlayer (Some 0)],
                           workerReady = False, pendingMessages = [], once_armed = True,
                           terminated = False, creator = 0, creator_data = None\<rparr>)],
          sockets = [], fresh = 2, allowForceStart = False\<rparr>"
  by (simp add: srv_defs)

text \<open>
  C9 (the code against the claim). After the room of connection 1 has been destroyed, its
  \<open>setReady\<close> and \<open>input\<close> messages throw a \<open>TypeError\<close> (\<open>room.players\<close> of an \<open>undefined\<close> room);
  so do a \<open>setReady\<close> without payload and the JSON text \<open>null\<close>.
\<close>

theorem C9_setReady_after_room_destroyed_throws:
  "server_run [Connection, Connection, Message 0 5 (Join None), Message 1 6 (Join None), Close 0,
               Message 1 7 (SetReady (Some True))] (server_init False :: unit server) = Inl TypeError
   \<and> server_run [Connection, Connection, Message 0 5 (Join None), Message 1 6 (Join None), Close 0,
               Message 1 7 (InputMsg (Some ()))] (server_init False :: unit server) = Inl TypeError
   \<and> server_run [Connection, Message 0 5 (Join None), Message 0 6 (SetReady None)]
        (server_init False :: unit server) = Inl TypeError
   \<and> server_run [Connection, Message 0 5 Json_null] (server_init False :: unit server) = Inl TypeError"
  by (simp add: srv_defs)

text \<open>
  C4 (the code against the claim). The join that creates a room posts \<open>addPlayer\<close> to the new
  worker at once, before the worker has signalled \<open>ready\<close>, and nothing is queued; when \<open>ready\<close>
  arrives the listener posts \<open>init\<close>, \<open>start\<close> and the same \<open>addPlayer\<close> again. A second join
  into the room posts its \<open>addPlayer\<close> directly as well.
\<close>

theorem C4_addPlayer_posted_before_ready_and_twice:
  "server_run [Connection, Message 0 5 (Join (Some ()))] (server_init False)
   = Inr \<lparr>rooms = [(1, \<lparr>players = [(0, new_player 5)], phase = Lobby, pregameTimer = None,
                        raceTimer = None, raceStartAt = None, physicsWorker = Some 1\<rparr>)],
          workers = [(1, \<lparr>posted = [AddPlayer (Some 0) (Some ())], workerReady = False,
                           pendingMessages = [], once_armed = True, terminated = False, creator = 0,
                           creator_data = Some ()\<rparr>)],
          sockets = [(0, Some 1)], fresh = 2, allowForceStart = False\<rparr>
   \<and> server_run [Connection, Message 0 5 (Join (Some ())), WorkerMessage 1 W_ready] (server_init False)
   = Inr \<lparr>rooms = [(1, \<lparr>players = [(0, new_player 5)], phase = Lobby, pregameTimer = None,
                        raceTimer = None, raceStartAt = None, physicsWorker = Some 1\<rparr>)],
          workers = [(1, \<lparr>posted = [AddPlayer (Some 0) (Some ()), Init (Some ()), Start,
                                     AddPlayer (Some 0) (Some ())],
                           workerReady = True, pendingMessages = [], once_armed = False,
                           terminated = False, creator = 0, creator_data = Some ()\<rparr>)],
          sockets = [(0, Some 1)], fresh = 2, allowForceStart = False\<rparr>
   \<and> server_run [Connection, Connection, Message 0 5 (Join (Some ())), Message 1 6 (Join (Some ()))]
        (server_init False)
   = Inr \<lparr>rooms = [(2, \<lparr>players = [(0, new_player 5), (1, new_player 6)], phase = Lobby,
                        pregameTimer = None, raceTimer = None, raceStartAt = None,
                        physicsWorker = Some 2\<rparr>)],
          workers = [(2, \<lparr>posted = [AddPlayer (Some 0) (Some ()), AddPlayer (Some 1) (Some ())],
                           workerReady = False, pendingMessages = [], once_armed = True,
                           terminated = False, creator = 0, creator_data = Some ()\<rparr>)],
          sockets = [(0, Some 2), (1, Some 2)], fresh = 3, allowForceStart = False\<rparr>"
  by (simp add: srv_defs)

end
